theory Spec2Isabelle
  imports Main
begin

section \<open>Python values and string helpers\<close>

text \<open>
  The values that occur in the dictionaries produced by \<^verbatim>\<open>MediaInfo ... to_data()\<close> and in the
  timestamp fields of an observation. A Python float is kept as a dyadic rational
  \<open>VFloat m e\<close> (the number \<open>m * 2 ^ e\<close>); the program only passes floats through.
\<close>

datatype pyval =
    VNone
  | VBool bool
  | VInt int
  | VFloat int int
  | VStr string
  | VList "pyval list"

text \<open>The exceptions that can leave the modelled functions.\<close>

datatype exn =
    FileNotFoundError
  | PermissionError
  | OSError
  | KeyError string
  | ValueError
  | TypeError
  | DuplicateKey string
  | AttributeError
  | ZeroDivisionError
  | OverflowError
  | CellDoesNotExist string
  | FileExistsError

text \<open>\<^verbatim>\<open>s.startswith(p)\<close>\<close>

definition startswith :: "string \<Rightarrow> string \<Rightarrow> bool" where
  "startswith p s = (take (length p) s = p)"

text \<open>\<^verbatim>\<open>sub in s\<close> on strings: \<open>sub\<close> occurs in \<open>s\<close> as a contiguous block.\<close>

fun contains :: "string \<Rightarrow> string \<Rightarrow> bool" where
  "contains sub [] = (sub = [])"
| "contains sub (c # cs) = (startswith sub (c # cs) \<or> contains sub cs)"

text \<open>
  \<^verbatim>\<open>s.lower()\<close>, on the ASCII letters (a byte outside \<open>A..Z\<close> is left as it is).
\<close>

definition lower_char :: "char \<Rightarrow> char" where
  "lower_char c =
     (case map_of (zip ''ABCDEFGHIJKLMNOPQRSTUVWXYZ'' ''abcdefghijklmnopqrstuvwxyz'') c of
        None \<Rightarrow> c
      | Some l \<Rightarrow> l)"

definition lower :: "string \<Rightarrow> string" where
  "lower s = map lower_char s"

text \<open>\<^verbatim>\<open>"{}".format(i)\<close> for an integer \<open>i\<close>: its decimal digits, with a minus sign if negative.\<close>

fun str_of_nat :: "nat \<Rightarrow> string" where
  "str_of_nat n =
     (if n < 10 then [''0123456789'' ! n]
      else str_of_nat (n div 10) @ [''0123456789'' ! (n mod 10)])"

declare str_of_nat.simps [simp del]

definition str_of_int :: "int \<Rightarrow> string" where
  "str_of_int i = (if i < 0 then CHR ''-'' # str_of_nat (nat (- i)) else str_of_nat (nat i))"

section \<open>Discovery: the inspection worker (monitor.py)\<close>

subsection \<open>What the worker reads from its environment\<close>

text \<open>The result of \<^verbatim>\<open>os.lstat\<close>.\<close>

record statinfo =
  st_size :: int
  st_ctime :: pyval
  st_mtime :: pyval

text \<open>A track of \<^verbatim>\<open>MediaInfo.parse(filename).tracks\<close>: its type and its \<^verbatim>\<open>to_data()\<close> dictionary.\<close>

record media_track =
  track_type :: string
  to_data :: "(string \<times> pyval) list"

text \<open>
  \<^verbatim>\<open>libarchive.exception.ArchiveError\<close>: the message the program inspects, and libarchive's
  return code (\<open>-25\<close> is \<^verbatim>\<open>ARCHIVE_FAILED\<close>, \<open>-30\<close> is \<^verbatim>\<open>ARCHIVE_FATAL\<close>), which the program
  never reads.
\<close>

datatype archive_error = ArchiveError (msg: string) (retcode: int)

text \<open>
  What \<^verbatim>\<open>for block in entry.get_blocks(): break\<close> meets: the read of the first block either
  goes through (\<open>BlocksRead\<close>, also for an entry without data) or raises.
\<close>

datatype block_read = BlocksRead | ReadRaises archive_error

text \<open>An entry of an open archive, as the worker uses it.\<close>

record archive_entry =
  isreg :: bool
  pathname :: string
  entry_size :: pyval
  entry_ctime :: pyval
  entry_mtime :: pyval
  get_blocks :: block_read

text \<open>
  The environment of the worker, one field per library call. \<open>Inl e\<close> means that the call
  raises \<open>e\<close>. \<^verbatim>\<open>libarchive.file_reader\<close> either fails to open the file (unrecognised
  format) or gives the entries the iteration yields, followed by the error that ends the
  iteration early, if any.
\<close>

record world =
  magic_from_file_mime :: "string \<Rightarrow> exn + string"
  lstat :: "string \<Rightarrow> exn + statinfo"
  magic_from_file :: "string \<Rightarrow> exn + string"
  MediaInfo_parse :: "string \<Rightarrow> exn + media_track list"
  file_reader :: "string \<Rightarrow> archive_error + (archive_entry list \<times> archive_error option)"
  guess_type :: "string \<Rightarrow> string option"

subsection \<open>Observations\<close>

text \<open>
  The observation dictionary. The first six keys are always set; the others are optional keys
  of the dictionary (\<open>None\<close>: the key is absent). \<open>audio_track\<close> and \<open>extracted_path\<close>
  are the keys that \<^verbatim>\<open>populate_filelist\<close> and \<^verbatim>\<open>process_queue\<close> add later to the same
  dictionary.
\<close>

record observation =
  path :: string
  mime :: string
  format :: string
  size_bytes :: int
  ctime :: pyval
  mtime :: pyval
  audio_tracks :: "(string \<times> pyval) list list option"
  encrypted :: "bool option"
  archive_path :: "string option"
  archive_size :: "pyval option"
  archive_ctime :: "pyval option"
  archive_mtime :: "pyval option"
  audio_track :: "(string \<times> pyval) list option"
  extracted_path :: "string option"

subsection \<open>peek_worker\<close>

definition is_av :: "string \<Rightarrow> bool" where
  "is_av m = (startswith ''audio/'' m \<or> startswith ''video/'' m)"

text \<open>\<^verbatim>\<open>'encrypted' in e.msg.lower() or 'passphrase' in e.msg.lower()\<close>\<close>

definition is_encryption_error :: "archive_error \<Rightarrow> bool" where
  "is_encryption_error e =
     (contains ''encrypted'' (lower (msg e)) \<or> contains ''passphrase'' (lower (msg e)))"

text \<open>\<^verbatim>\<open>guess_type(entry.pathname, strict=False)[0] or ''\<close>\<close>

definition entry_mime :: "world \<Rightarrow> archive_entry \<Rightarrow> string" where
  "entry_mime w e = (case guess_type w (pathname e) of None \<Rightarrow> [] | Some m \<Rightarrow> m)"

text \<open>\<^verbatim>\<open>observation.update({'archive_path': ..., 'archive_size': ..., ...})\<close>\<close>

definition with_archive_fields :: "archive_entry \<Rightarrow> observation \<Rightarrow> observation" where
  "with_archive_fields e obs =
     obs\<lparr>archive_path := Some (pathname e),
         archive_size := Some (entry_size e),
         archive_ctime := Some (entry_ctime e),
         archive_mtime := Some (entry_mtime e)\<rparr>"

text \<open>
  The loop \<^verbatim>\<open>for entry in archive\<close> of \<^verbatim>\<open>peek_worker\<close>. The first argument after the
  environment is the variable \<^verbatim>\<open>observation\<close>, which each matching entry rebinds to a copy of
  its previous value and then updates. The result is the list of observations put on the
  output queue and the \<^verbatim>\<open>ArchiveError\<close> that left the loop, if one did (\<^verbatim>\<open>raise e\<close>).
\<close>

fun scan_entries ::
  "world \<Rightarrow> observation \<Rightarrow> archive_entry list \<Rightarrow> observation list \<times> archive_error option"
where
  "scan_entries w obs [] = ([], None)"
| "scan_entries w obs (e # es) =
     (if isreg e \<and> is_av (entry_mime w e) then
        (case get_blocks e of
           BlocksRead \<Rightarrow>
             (let obs' = with_archive_fields e obs;
                  rest = scan_entries w obs' es
              in (obs' # fst rest, snd rest))
         | ReadRaises err \<Rightarrow>
             (if is_encryption_error err then
                (let obs' = with_archive_fields e (obs\<lparr>encrypted := Some True\<rparr>);
                     rest = scan_entries w obs' es
                 in (obs' # fst rest, snd rest))
              else ([], Some err)))
      else scan_entries w obs es)"

text \<open>The dictionary literal bound to \<^verbatim>\<open>observation\<close> at the start of an iteration.\<close>

definition new_observation :: "string \<Rightarrow> string \<Rightarrow> string \<Rightarrow> statinfo \<Rightarrow> observation" where
  "new_observation filename mime_type fmt statinfo =
     \<lparr>path = filename, mime = mime_type, format = fmt,
      size_bytes = st_size statinfo, ctime = st_ctime statinfo, mtime = st_mtime statinfo,
      audio_tracks = None, encrypted = None, archive_path = None,
      archive_size = None, archive_ctime = None, archive_mtime = None,
      audio_track = None, extracted_path = None\<rparr>"

text \<open>
  One iteration of \<^verbatim>\<open>for filename in iter(input_queue.get, None)\<close>: the observations put on
  the output queue for \<open>filename\<close>, and the exception that leaves the iteration uncaught, if
  any. Every \<^verbatim>\<open>ArchiveError\<close> (on opening, on reading the next header, or re-raised from an
  entry) is caught by \<^verbatim>\<open>except libarchive.exception.ArchiveError: continue\<close>; nothing else is
  caught.
\<close>

definition inspect :: "world \<Rightarrow> string \<Rightarrow> observation list \<times> exn option" where
  "inspect w filename =
     (case magic_from_file_mime w filename of
        Inl e \<Rightarrow> ([], Some e)
      | Inr mime_type \<Rightarrow>
     (case lstat w filename of
        Inl e \<Rightarrow> ([], Some e)
      | Inr statinfo \<Rightarrow>
     (case magic_from_file w filename of
        Inl e \<Rightarrow> ([], Some e)
      | Inr fmt \<Rightarrow>
        (let observation = new_observation filename mime_type fmt statinfo
         in if is_av mime_type then
              (case MediaInfo_parse w filename of
                 Inl e \<Rightarrow> ([], Some e)
               | Inr tracks \<Rightarrow>
                   ([observation\<lparr>audio_tracks :=
                       Some (map to_data (filter (\<lambda>t. track_type t = ''Audio'') tracks))\<rparr>],
                    None))
            else
              (case file_reader w filename of
                 Inl err \<Rightarrow> ([], None)
               | Inr (entries, iteration_error) \<Rightarrow>
                   (fst (scan_entries w observation entries), None))))))"

text \<open>
  \<^verbatim>\<open>peek_worker(input_queue, output_queue)\<close> on the paths queued before the sentinel
  \<^verbatim>\<open>None\<close>: the contents of the output queue, and the exception that ended the worker, if it
  did not reach the sentinel.
\<close>

fun peek_worker :: "world \<Rightarrow> string list \<Rightarrow> observation list \<times> exn option" where
  "peek_worker w [] = ([], None)"
| "peek_worker w (filename # queue) =
     (case inspect w filename of
        (out, Some e) \<Rightarrow> (out, Some e)
      | (out, None) \<Rightarrow>
          (let rest = peek_worker w queue in (out @ fst rest, snd rest)))"

section \<open>Discovery: from observations to track keys (SelectionScreen.populate_filelist)\<close>

text \<open>
  Python's \<^verbatim>\<open>int(v)\<close>. The conversion of a string is the library's; it is a parameter
  \<open>int_of_str\<close> (\<open>None\<close>: \<^verbatim>\<open>ValueError\<close>). A float is truncated towards zero.
\<close>

definition trunc_dyadic :: "int \<Rightarrow> int \<Rightarrow> int" where
  "trunc_dyadic m e =
     (if 0 \<le> e then m * 2 ^ nat e
      else if 0 \<le> m then m div 2 ^ nat (- e)
      else - ((- m) div 2 ^ nat (- e)))"

definition py_int :: "(string \<Rightarrow> int option) \<Rightarrow> pyval \<Rightarrow> exn + int" where
  "py_int int_of_str v =
     (case v of
        VNone \<Rightarrow> Inl TypeError
      | VBool b \<Rightarrow> Inr (if b then 1 else 0)
      | VInt n \<Rightarrow> Inr n
      | VFloat m e \<Rightarrow> Inr (trunc_dyadic m e)
      | VStr s \<Rightarrow> (case int_of_str s of None \<Rightarrow> Inl ValueError | Some n \<Rightarrow> Inr n)
      | VList xs \<Rightarrow> Inl TypeError)"

text \<open>
  \<^verbatim>\<open>key = file_entry["path"]\<close>, followed by
  \<^verbatim>\<open>if "archive_path" in file_entry: key += "/" + file_entry["archive_path"]\<close>.
\<close>

definition observation_key :: "observation \<Rightarrow> string" where
  "observation_key file_entry =
     (case archive_path file_entry of
        None \<Rightarrow> path file_entry
      | Some ap \<Rightarrow> path file_entry @ ''/'' @ ap)"

text \<open>
  \<^verbatim>\<open>i = int(track["track_id"])\<close> when the track has the key \<^verbatim>\<open>track_id\<close>, and the position
  \<open>i\<close> of \<^verbatim>\<open>enumerate\<close> otherwise.
\<close>

definition track_index :: "(string \<Rightarrow> int option) \<Rightarrow> nat \<Rightarrow> (string \<times> pyval) list \<Rightarrow> exn + int" where
  "track_index int_of_str i track =
     (case map_of track ''track_id'' of
        None \<Rightarrow> Inr (int i)
      | Some v \<Rightarrow> py_int int_of_str v)"

text \<open>
  The loop \<^verbatim>\<open>for i, track in enumerate(audio_tracks)\<close>: the calls
  \<^verbatim>\<open>on_track_added("{}/{}".format(key, i), audio_entry)\<close> it makes, in order, and the exception
  that ends it, if any.
\<close>

fun track_loop ::
  "(string \<Rightarrow> int option) \<Rightarrow> string \<Rightarrow> observation \<Rightarrow> nat \<Rightarrow> (string \<times> pyval) list list
     \<Rightarrow> (string \<times> observation) list \<times> exn option"
where
  "track_loop int_of_str key file_entry i [] = ([], None)"
| "track_loop int_of_str key file_entry i (track # tracks) =
     (case track_index int_of_str i track of
        Inl e \<Rightarrow> ([], Some e)
      | Inr j \<Rightarrow>
          (let audio_entry = file_entry\<lparr>audio_track := Some track\<rparr>;
               rest = track_loop int_of_str key file_entry (Suc i) tracks
           in ((key @ ''/'' @ str_of_int j, audio_entry) # fst rest, snd rest)))"

text \<open>
  The body of \<^verbatim>\<open>for file_entry in monitor\<close>:
  \<^verbatim>\<open>file_entry.get("audio_tracks", [{}])\<close> takes the default, one empty dictionary, only when
  the key \<^verbatim>\<open>audio_tracks\<close> is absent; \<^verbatim>\<open>file_entry.pop("audio_tracks", None)\<close> removes the key.
\<close>

definition discovered_tracks ::
  "(string \<Rightarrow> int option) \<Rightarrow> observation \<Rightarrow> (string \<times> observation) list \<times> exn option"
where
  "discovered_tracks int_of_str file_entry =
     (let key = observation_key file_entry;
          tracks = (case audio_tracks file_entry of None \<Rightarrow> [[]] | Some ts \<Rightarrow> ts)
      in track_loop int_of_str key (file_entry\<lparr>audio_tracks := None\<rparr>) 0 tracks)"

section \<open>Tasks, the registry and the status column (selection.py)\<close>

datatype TranscriptionStatus =
    SKIPPED
  | WAITING
  | UNPACKING
  | LOADING
  | TRANSCRIBING
  | DIARIZING
  | ENCRYPTING
  | RETURNING
  | FAILED
  | COMPLETED

text \<open>\<^verbatim>\<open>str(status.name).capitalize()\<close>\<close>

fun status_label :: "TranscriptionStatus \<Rightarrow> string" where
  "status_label SKIPPED = ''Skipped''"
| "status_label WAITING = ''Waiting''"
| "status_label UNPACKING = ''Unpacking''"
| "status_label LOADING = ''Loading''"
| "status_label TRANSCRIBING = ''Transcribing''"
| "status_label DIARIZING = ''Diarizing''"
| "status_label ENCRYPTING = ''Encrypting''"
| "status_label RETURNING = ''Returning''"
| "status_label FAILED = ''Failed''"
| "status_label COMPLETED = ''Completed''"

text \<open>
  A task or options dictionary. Its keys are the widget ids of \<^verbatim>\<open>OptionsScreen\<close>
  (\<^verbatim>\<open>models\<close>: the selected list; \<^verbatim>\<open>min_speakers\<close>, \<^verbatim>\<open>max_speakers\<close>, \<^verbatim>\<open>prompt\<close>: the text of
  an input field) and \<^verbatim>\<open>status\<close>, written by \<^verbatim>\<open>set_row_status\<close>. \<open>None\<close>: the key is absent.
\<close>

record task =
  models :: "string list option"
  min_speakers :: "string option"
  max_speakers :: "string option"
  prompt :: "string option"
  status :: "TranscriptionStatus option"

text \<open>The empty dictionary \<^verbatim>\<open>{}\<close>.\<close>

definition empty_task :: task where
  "empty_task =
     \<lparr>models = None, min_speakers = None, max_speakers = None, prompt = None, status = None\<rparr>"

text \<open>\<^verbatim>\<open>t.update(u)\<close>: every key of \<open>u\<close> is written to \<open>t\<close>; the result is the new \<open>t\<close>.\<close>

definition dict_update :: "task \<Rightarrow> task \<Rightarrow> task" where
  "dict_update t u =
     \<lparr>models = (case models u of None \<Rightarrow> models t | Some x \<Rightarrow> Some x),
      min_speakers = (case min_speakers u of None \<Rightarrow> min_speakers t | Some x \<Rightarrow> Some x),
      max_speakers = (case max_speakers u of None \<Rightarrow> max_speakers t | Some x \<Rightarrow> Some x),
      prompt = (case prompt u of None \<Rightarrow> prompt t | Some x \<Rightarrow> Some x),
      status = (case status u of None \<Rightarrow> status t | Some x \<Rightarrow> Some x)\<rparr>"

text \<open>
  What the screen shows and runs, in program order: rows added to the table, writes to the
  status cell of a row, the line \<^verbatim>\<open>Processing ... in ...\<close> of the log, and the external
  commands started by \<^verbatim>\<open>run_proc\<close> (tagged with the row they were started for).
\<close>

datatype event =
    AddRow string string
  | UpdateCell string string
  | LogProcessing string string
  | RunProc string string "string list"

text \<open>
  The state of the application: \<^verbatim>\<open>app.audio_tracks\<close> (the track registry), \<^verbatim>\<open>app.tasks\<close>,
  \<^verbatim>\<open>app.defaults\<close>, the row keys of the table in order, and the events so far.
\<close>

record app =
  app_audio_tracks :: "string \<rightharpoonup> observation"
  app_tasks :: "string \<rightharpoonup> task"
  app_defaults :: task
  table_rows :: "string list"
  events :: "event list"

text \<open>\<^verbatim>\<open>WSPSRApp.defaults = {'models': ['large-v2', 'diarize']}\<close>, with nothing discovered yet.\<close>

definition initial_app :: app where
  "initial_app =
     \<lparr>app_audio_tracks = Map.empty, app_tasks = Map.empty,
      app_defaults = empty_task\<lparr>models := Some [''large-v2'', ''diarize'']\<rparr>,
      table_rows = [], events = []\<rparr>"

text \<open>
  \<^verbatim>\<open>get_row_task\<close>: \<^verbatim>\<open>task = self.app.defaults.copy()\<close>, then
  \<^verbatim>\<open>task.update(self.app.tasks.get(row_key, {}))\<close>.
\<close>

definition get_row_task :: "app \<Rightarrow> string \<Rightarrow> task" where
  "get_row_task s row_key =
     dict_update (app_defaults s)
       (case app_tasks s row_key of None \<Rightarrow> empty_task | Some t \<Rightarrow> t)"

text \<open>\<^verbatim>\<open>get_row_status\<close>: \<^verbatim>\<open>task.get("status", TranscriptionStatus.WAITING)\<close> of the resolved task.\<close>

definition get_row_status :: "app \<Rightarrow> string \<Rightarrow> TranscriptionStatus" where
  "get_row_status s row_key =
     (case status (get_row_task s row_key) of None \<Rightarrow> WAITING | Some st \<Rightarrow> st)"

text \<open>
  The status that \<^verbatim>\<open>update_rows\<close> writes to the cell of a row:
  \<^verbatim>\<open>"models" in task and not task["models"] and status == TranscriptionStatus.WAITING\<close> turns
  the status shown into \<^verbatim>\<open>SKIPPED\<close>.
\<close>

definition shown_status :: "app \<Rightarrow> string \<Rightarrow> TranscriptionStatus" where
  "shown_status s row_key =
     (let task = get_row_task s row_key;
          st = get_row_status s row_key
      in if models task = Some [] \<and> st = WAITING then SKIPPED else st)"

text \<open>
  A step of the screen gives the new state and the exception it raised, if any. \<open>and_then\<close>
  runs the next step on the state the first one left, unless the first one raised.
\<close>

definition and_then :: "app \<times> exn option \<Rightarrow> (app \<Rightarrow> app \<times> exn option) \<Rightarrow> app \<times> exn option" where
  "and_then r f = (case r of (s, None) \<Rightarrow> f s | (s, Some e) \<Rightarrow> (s, Some e))"

text \<open>
  \<^verbatim>\<open>data_table.update_cell(row_key, "status", label)\<close>: it raises when the table has no row
  with that key.
\<close>

definition update_cell :: "string \<Rightarrow> string \<Rightarrow> app \<Rightarrow> app \<times> exn option" where
  "update_cell row_key label s =
     (if row_key \<in> set (table_rows s)
      then (s\<lparr>events := events s @ [UpdateCell row_key label]\<rparr>, None)
      else (s, Some (CellDoesNotExist row_key)))"

text \<open>The body of the loop of \<^verbatim>\<open>update_rows\<close> for one row key object, and the loop.\<close>

definition update_row :: "string \<Rightarrow> app \<Rightarrow> app \<times> exn option" where
  "update_row row_key s = update_cell row_key (status_label (shown_status s row_key)) s"

fun update_each :: "string list \<Rightarrow> app \<Rightarrow> app \<times> exn option" where
  "update_each [] s = (s, None)"
| "update_each (row_key # row_keys) s = and_then (update_row row_key s) (update_each row_keys)"

text \<open>
  What a caller hands to \<^verbatim>\<open>update_rows\<close> as \<^verbatim>\<open>row_keys\<close>: nothing, a row key object of the
  table (it has the attribute \<^verbatim>\<open>value\<close>), or a Python string.
\<close>

datatype row_keys = NoRowKeys | RowKey string | StrKey string

text \<open>
  \<^verbatim>\<open>update_rows\<close>. Without row keys, or with a false value (the empty string), it takes all
  rows of the table. A row key object has no \<^verbatim>\<open>__iter__\<close> and is wrapped in a tuple. A
  non-empty string is true and has \<^verbatim>\<open>__iter__\<close>: the loop runs over its characters, and
  \<^verbatim>\<open>row_key.value\<close> on the first character raises \<^verbatim>\<open>AttributeError\<close> before any cell is
  written.
\<close>

definition update_rows :: "row_keys \<Rightarrow> app \<Rightarrow> app \<times> exn option" where
  "update_rows keys s =
     (case keys of
        NoRowKeys \<Rightarrow> update_each (table_rows s) s
      | RowKey k \<Rightarrow> update_each [k] s
      | StrKey str \<Rightarrow>
          (if str = [] then update_each (table_rows s) s else (s, Some AttributeError)))"

text \<open>
  \<^verbatim>\<open>set_row_status\<close>: the row key is turned into its string
  (\<^verbatim>\<open>if not isinstance(row_key, str): row_key = row_key.value\<close>), the status is stored
  (\<^verbatim>\<open>task = self.app.tasks.setdefault(row_key, {})\<close>, \<^verbatim>\<open>task.update({"status": status})\<close>), and
  \<^verbatim>\<open>self.update_rows(row_key)\<close> is called with that string.
\<close>

definition set_row_status :: "string \<Rightarrow> TranscriptionStatus \<Rightarrow> app \<Rightarrow> app \<times> exn option" where
  "set_row_status row_key st s =
     (let t = (case app_tasks s row_key of None \<Rightarrow> empty_task | Some t \<Rightarrow> t)
      in update_rows (StrKey row_key)
           (s\<lparr>app_tasks := (app_tasks s)(row_key \<mapsto> t\<lparr>status := Some st\<rparr>)\<rparr>))"

text \<open>
  The exception of \<^verbatim>\<open>n / v\<close> for an integer \<open>n\<close>, if the division raises because of the
  type or the value of \<open>v\<close>.
\<close>

definition true_div_error :: "pyval \<Rightarrow> exn option" where
  "true_div_error v =
     (case v of
        VNone \<Rightarrow> Some TypeError
      | VBool b \<Rightarrow> (if b then None else Some ZeroDivisionError)
      | VInt d \<Rightarrow> (if d = 0 then Some ZeroDivisionError else None)
      | VFloat m e \<Rightarrow> (if m = 0 then Some ZeroDivisionError else None)
      | VStr x \<Rightarrow> Some TypeError
      | VList xs \<Rightarrow> Some TypeError)"

text \<open>
  The exception raised by the computation of the duration cell in \<^verbatim>\<open>on_track_added\<close>, if
  any: \<^verbatim>\<open>str(timedelta(seconds=int(track["samples_count"]) / track["sampling_rate"]))\<close> when
  the track has both keys, \<^verbatim>\<open>str(timedelta(milliseconds=int(track["duration"])))\<close> when it has
  the key \<^verbatim>\<open>duration\<close>, the empty string otherwise. Whether the quotient, a float, is too
  large for a float or for \<^verbatim>\<open>timedelta\<close> is the parameter \<open>overflows\<close>; a \<^verbatim>\<open>timedelta\<close> of
  whole milliseconds overflows when its days are outside \<open>-999999999 .. 999999999\<close>. The text
  of the cell is display only and is left out.
\<close>

definition duration_error ::
  "(string \<Rightarrow> int option) \<Rightarrow> (int \<Rightarrow> pyval \<Rightarrow> bool) \<Rightarrow> (string \<times> pyval) list \<Rightarrow> exn option"
where
  "duration_error int_of_str overflows track =
     (case (map_of track ''samples_count'', map_of track ''sampling_rate'') of
        (Some sc, Some sr) \<Rightarrow>
          (case py_int int_of_str sc of
             Inl e \<Rightarrow> Some e
           | Inr n \<Rightarrow>
               (case true_div_error sr of
                  Some e \<Rightarrow> Some e
                | None \<Rightarrow> if overflows n sr then Some OverflowError else None))
      | _ \<Rightarrow>
          (case map_of track ''duration'' of
             None \<Rightarrow> None
           | Some d \<Rightarrow>
               (case py_int int_of_str d of
                  Inl e \<Rightarrow> Some e
                | Inr n \<Rightarrow>
                    if n div 86400000 < - 999999999 \<or> 999999999 < n div 86400000
                    then Some OverflowError else None)))"

text \<open>
  \<^verbatim>\<open>on_track_added\<close>: the entry is stored in the registry under its key first
  (\<^verbatim>\<open>self.app.audio_tracks[key] = entry\<close>); \<^verbatim>\<open>entry["audio_track"]\<close> raises when the key is
  absent; the duration cell is computed, which can raise; then \<^verbatim>\<open>DataTable.add_row\<close> adds the
  row with the status cell \<^verbatim>\<open>Waiting\<close>, and raises on a key the table already has.
\<close>

definition on_track_added ::
  "(string \<Rightarrow> int option) \<Rightarrow> (int \<Rightarrow> pyval \<Rightarrow> bool) \<Rightarrow> string \<Rightarrow> observation \<Rightarrow> app
     \<Rightarrow> app \<times> exn option"
where
  "on_track_added int_of_str overflows key entry s =
     (let s1 = s\<lparr>app_audio_tracks := (app_audio_tracks s)(key \<mapsto> entry)\<rparr>
      in case audio_track entry of
           None \<Rightarrow> (s1, Some (KeyError ''audio_track''))
         | Some track \<Rightarrow>
             (case duration_error int_of_str overflows track of
                Some e \<Rightarrow> (s1, Some e)
              | None \<Rightarrow>
                  (if key \<in> set (table_rows s1) then (s1, Some (DuplicateKey key))
                   else (s1\<lparr>table_rows := table_rows s1 @ [key],
                            events := events s1 @ [AddRow key ''Waiting'']\<rparr>, None))))"

text \<open>
  \<^verbatim>\<open>populate_filelist\<close> on the observations the monitor yields: for each observation, the
  calls of \<^verbatim>\<open>on_track_added\<close> that the loop over its tracks makes (through
  \<^verbatim>\<open>call_from_thread\<close>, which waits for the call and passes its exception on), up to the first
  exception.
\<close>

fun add_tracks ::
  "(string \<Rightarrow> int option) \<Rightarrow> (int \<Rightarrow> pyval \<Rightarrow> bool) \<Rightarrow> (string \<times> observation) list \<Rightarrow> app
     \<Rightarrow> app \<times> exn option"
where
  "add_tracks int_of_str overflows [] s = (s, None)"
| "add_tracks int_of_str overflows ((key, entry) # calls) s =
     and_then (on_track_added int_of_str overflows key entry s)
       (add_tracks int_of_str overflows calls)"

fun populate_filelist ::
  "(string \<Rightarrow> int option) \<Rightarrow> (int \<Rightarrow> pyval \<Rightarrow> bool) \<Rightarrow> observation list \<Rightarrow> app
     \<Rightarrow> app \<times> exn option"
where
  "populate_filelist int_of_str overflows [] s = (s, None)"
| "populate_filelist int_of_str overflows (file_entry # file_entries) s =
     and_then
       (and_then
          (add_tracks int_of_str overflows (fst (discovered_tracks int_of_str file_entry)) s)
          (\<lambda>s'. (s', snd (discovered_tracks int_of_str file_entry))))
       (populate_filelist int_of_str overflows file_entries)"

text \<open>
  The callback \<^verbatim>\<open>check_options\<close> of \<^verbatim>\<open>on_data_table_row_selected\<close>, for the options and the
  target the options screen was dismissed with, on the selected row: without a target the
  options become the defaults and all rows are redrawn; otherwise they replace the task of
  the row, and \<^verbatim>\<open>update_rows\<close> is called with the row key object of the event.
\<close>

definition check_options :: "task \<Rightarrow> string option \<Rightarrow> string \<Rightarrow> app \<Rightarrow> app \<times> exn option" where
  "check_options options target row_key s =
     (if target = None \<or> target = Some [] then
        update_rows NoRowKeys (s\<lparr>app_defaults := options\<rparr>)
      else
        update_rows (RowKey row_key) (s\<lparr>app_tasks := (app_tasks s)(row_key \<mapsto> options)\<rparr>))"

section \<open>The task pipeline (SelectionScreen.process_queue)\<close>

subsection \<open>Library functions on paths and shell words\<close>

text \<open>\<^verbatim>\<open>os.path.basename\<close> (POSIX): what follows the last slash.\<close>

definition basename :: "string \<Rightarrow> string" where
  "basename p = rev (takeWhile (\<lambda>c. c \<noteq> CHR ''/'') (rev p))"

text \<open>\<^verbatim>\<open>os.path.join(a, b)\<close> (POSIX), for two arguments.\<close>

definition path_join :: "string \<Rightarrow> string \<Rightarrow> string" where
  "path_join a b =
     (if startswith ''/'' b then b
      else if a = [] \<or> last a = CHR ''/'' then a @ b
      else a @ ''/'' @ b)"

text \<open>
  \<^verbatim>\<open>shlex.quote\<close>: the empty string becomes two single quotes; a string of safe characters is
  returned as it is; any other string is put in single quotes, each single quote of it
  written as \<^verbatim>\<open>'"'"'\<close>.
\<close>

definition safe_char :: "char \<Rightarrow> bool" where
  "safe_char c =
     (c \<in> set ''abcdefghijklmnopqrstuvwxyzABCDEFGHIJKLMNOPQRSTUVWXYZ0123456789_@%+=:,./-'')"

definition quote :: "string \<Rightarrow> string" where
  "quote s =
     (if s = [] then [CHR 0x27, CHR 0x27]
      else if list_all safe_char s then s
      else [CHR 0x27]
           @ concat (map (\<lambda>c. if c = CHR 0x27
                               then [CHR 0x27, CHR 0x22, CHR 0x27, CHR 0x22, CHR 0x27]
                               else [c]) s)
           @ [CHR 0x27])"

text \<open>\<^verbatim>\<open>" ".join(words)\<close>\<close>

fun join_spaces :: "string list \<Rightarrow> string" where
  "join_spaces [] = []"
| "join_spaces [x] = x"
| "join_spaces (x # y # ys) = x @ '' '' @ join_spaces (y # ys)"

text \<open>
  \<^verbatim>\<open>while output_path.endswith("/") or output_path.endswith("\\"): output_path = output_path[:-1]\<close>
\<close>

function strip_trailing_separators :: "string \<Rightarrow> string" where
  "strip_trailing_separators p =
     (if p \<noteq> [] \<and> (last p = CHR ''/'' \<or> last p = CHR 0x5C)
      then strip_trailing_separators (butlast p)
      else p)"
  by pat_completeness auto
termination
  by (relation "measure length") auto

declare strip_trailing_separators.simps [simp del]

subsection \<open>The environment of the pipeline\<close>

text \<open>
  What the pipeline gets from outside, for the row being processed: the directory that
  \<^verbatim>\<open>TemporaryDirectory\<close> creates (or the exception of its creation or of \<^verbatim>\<open>chdir\<close>); what
  \<^verbatim>\<open>run_proc\<close> returns for a program and its arguments (the exit code, or the exception of
  \<^verbatim>\<open>create_subprocess_exec\<close>); and the exception of \<^verbatim>\<open>makedirs(output_path, exist_ok=True)\<close>,
  if it raises. Within one run of \<^verbatim>\<open>process_queue\<close> a row is processed once and its commands
  differ, so a function of the row key and the command covers every run.
\<close>

record env =
  TemporaryDirectory :: "string \<Rightarrow> exn + string"
  proc_exit :: "string \<times> string \<times> string list \<Rightarrow> exn + int"
  makedirs :: "string \<Rightarrow> string \<Rightarrow> exn option"

text \<open>
  \<^verbatim>\<open>run_proc(program, *args, rlog=rlog)\<close> for a row: the exit code and the command that ran,
  added to the events; when the process cannot be created, the exception and nothing else.
\<close>

definition run_proc :: "env \<Rightarrow> string \<Rightarrow> string \<Rightarrow> string list \<Rightarrow> app \<Rightarrow> (exn + int) \<times> app" where
  "run_proc ev row_key program args s =
     (case proc_exit ev (row_key, program, args) of
        Inl e \<Rightarrow> (Inl e, s)
      | Inr ret \<Rightarrow> (Inr ret, s\<lparr>events := events s @ [RunProc row_key program args]\<rparr>))"

text \<open>
  \<^verbatim>\<open>await copytree(".", output_path, ...)\<close>, the \<^verbatim>\<open>copytree\<close> of \<^verbatim>\<open>aioshutil\<close>, which runs
  \<^verbatim>\<open>shutil.copytree\<close>. It is called without \<^verbatim>\<open>dirs_exist_ok\<close>, right after \<^verbatim>\<open>makedirs\<close> has
  returned, so on a directory that exists: \<^verbatim>\<open>shutil.copytree\<close> creates its destination with
  \<^verbatim>\<open>os.makedirs(dst, exist_ok=False)\<close> and raises \<^verbatim>\<open>FileExistsError\<close>.
\<close>

definition copytree_onto_existing :: "string \<Rightarrow> exn option" where
  "copytree_onto_existing output_path = Some FileExistsError"

subsection \<open>The stages, last first\<close>

text \<open>
  From \<^verbatim>\<open>self.set_row_status(row.key, TranscriptionStatus.RETURNING)\<close> to the end of the loop
  body.
\<close>

definition returning :: "env \<Rightarrow> string \<Rightarrow> observation \<Rightarrow> app \<Rightarrow> app \<times> exn option" where
  "returning ev row_key track s =
     and_then (set_row_status row_key RETURNING s)
       (\<lambda>s1. let output_path = strip_trailing_separators (path track) @ ''.output''
             in case makedirs ev row_key output_path of
                  Some e \<Rightarrow> (s1, Some e)
                | None \<Rightarrow>
                    (case copytree_onto_existing output_path of
                       Some e \<Rightarrow> (s1, Some e)
                     | None \<Rightarrow> set_row_status row_key COMPLETED s1))"

text \<open>
  The list \<^verbatim>\<open>whisper_args\<close>. \<^verbatim>\<open>task["models"]\<close> raises \<^verbatim>\<open>KeyError\<close> when the resolved task has
  no models key.
\<close>

definition whisper_args :: "task \<Rightarrow> string \<Rightarrow> exn + string list" where
  "whisper_args t audio_file =
     (case models t of
        None \<Rightarrow> Inl (KeyError ''models'')
      | Some ms \<Rightarrow>
          Inr ([''whisperx --language no --model large-v2 --compute_type float32'']
               @ (if ''diarize'' \<in> set ms then
                    [''--align_model NbAiLab/wav2vec2-xlsr-300m-norwegian --diarize'']
                    @ (case min_speakers t of None \<Rightarrow> [] | Some m \<Rightarrow> [''--min_speakers '' @ m])
                    @ (case max_speakers t of None \<Rightarrow> [] | Some m \<Rightarrow> [''--max_speakers '' @ m])
                  else [])
               @ (case prompt t of None \<Rightarrow> [] | Some p \<Rightarrow> [''--initial_prompt '' @ quote p])
               @ [quote audio_file]))"

text \<open>
  From \<^verbatim>\<open>self.set_row_status(row.key, TranscriptionStatus.TRANSCRIBING)\<close> on. The check of the
  exit code is the source's \<^verbatim>\<open>if not ret == 0 and False\<close>.
\<close>

definition transcribing ::
  "env \<Rightarrow> string \<Rightarrow> observation \<Rightarrow> task \<Rightarrow> string \<Rightarrow> app \<Rightarrow> app \<times> exn option"
where
  "transcribing ev row_key track t audio_file s =
     and_then (set_row_status row_key TRANSCRIBING s)
       (\<lambda>s1. case whisper_args t audio_file of
                Inl e \<Rightarrow> (s1, Some e)
              | Inr args \<Rightarrow>
                  (case run_proc ev row_key ''/bin/bash'' [''-c'', join_spaces args] s1 of
                     (Inl e, s2) \<Rightarrow> (s2, Some e)
                   | (Inr ret, s2) \<Rightarrow>
                       (if ret \<noteq> 0 \<and> False then set_row_status row_key FAILED s2
                        else returning ev row_key track s2)))"

text \<open>From \<^verbatim>\<open>self.set_row_status(row.key, TranscriptionStatus.LOADING)\<close> on.\<close>

definition ffmpeg_arg :: "string \<Rightarrow> string \<Rightarrow> string" where
  "ffmpeg_arg source_path audio_file =
     ''ffmpeg -hide_banner -loglevel warning -i '' @ quote source_path
       @ '' -ac 1 -ar 16000 -c:a libvorbis -q:a 10 '' @ quote audio_file"

definition loading :: "env \<Rightarrow> string \<Rightarrow> observation \<Rightarrow> task \<Rightarrow> app \<Rightarrow> app \<times> exn option" where
  "loading ev row_key track t s =
     and_then (set_row_status row_key LOADING s)
       (\<lambda>s1. let source_path =
                   (case extracted_path track of
                      None \<Rightarrow> path track
                    | Some p \<Rightarrow> if p = [] then path track else p);
                 audio_file = basename source_path @ ''.oga''
             in case run_proc ev row_key ''/bin/bash''
                       [''-c'', ffmpeg_arg source_path audio_file] s1 of
                  (Inl e, s2) \<Rightarrow> (s2, Some e)
                | (Inr ret, s2) \<Rightarrow>
                    (if ret \<noteq> 0 then set_row_status row_key FAILED s2
                     else transcribing ev row_key track t audio_file s2))"

text \<open>
  From \<^verbatim>\<open>if "archive_path" in track\<close> on. \<^verbatim>\<open>track\<close> is the dictionary stored in the registry,
  so \<^verbatim>\<open>track["extracted_path"] = ...\<close> writes to the registry entry of the row.
\<close>

definition unpacking :: "env \<Rightarrow> string \<Rightarrow> observation \<Rightarrow> task \<Rightarrow> app \<Rightarrow> app \<times> exn option" where
  "unpacking ev row_key track t s =
     (case archive_path track of
        None \<Rightarrow> loading ev row_key track t s
      | Some ap \<Rightarrow>
          and_then (set_row_status row_key UNPACKING s)
            (\<lambda>s1. case run_proc ev row_key ''/usr/bin/bsdtar''
                          [''-x'', ''-k'', ''-f'', path track, ap] s1 of
                     (Inl e, s2) \<Rightarrow> (s2, Some e)
                   | (Inr ret, s2) \<Rightarrow>
                       (if ret \<noteq> 0 then set_row_status row_key FAILED s2
                        else
                          (let track' =
                                 track\<lparr>extracted_path := Some (path_join (path track) ap)\<rparr>;
                               s3 = s2\<lparr>app_audio_tracks :=
                                         (app_audio_tracks s2)(row_key \<mapsto> track')\<rparr>
                           in loading ev row_key track' t s3))))"

text \<open>
  The body of \<^verbatim>\<open>for row in data_table.ordered_rows\<close> for one row: the new state, and the
  exception that leaves \<^verbatim>\<open>process_queue\<close>, if any (\<open>None\<close>: the loop goes on with the next
  row).
\<close>

definition process_row :: "env \<Rightarrow> string \<Rightarrow> app \<Rightarrow> app \<times> exn option" where
  "process_row ev row_key s =
     (if get_row_status s row_key \<noteq> WAITING then (s, None)
      else
        (case app_audio_tracks s row_key of
           None \<Rightarrow> (s, Some (KeyError row_key))
         | Some track \<Rightarrow>
             (let t = get_row_task s row_key
              in if encrypted track = Some True then set_row_status row_key FAILED s
                 else
                   (case TemporaryDirectory ev row_key of
                      Inl e \<Rightarrow> (s, Some e)
                    | Inr temp_dir \<Rightarrow>
                        unpacking ev row_key track t
                          (s\<lparr>events := events s @ [LogProcessing row_key temp_dir]\<rparr>)))))"

fun process_rows :: "env \<Rightarrow> string list \<Rightarrow> app \<Rightarrow> app \<times> exn option" where
  "process_rows ev [] s = (s, None)"
| "process_rows ev (row_key # row_keys) s =
     and_then (process_row ev row_key s) (process_rows ev row_keys)"

definition process_queue :: "env \<Rightarrow> app \<Rightarrow> app \<times> exn option" where
  "process_queue ev s = process_rows ev (table_rows s) s"

section \<open>get_row_task on a store of dictionaries\<close>

text \<open>
  Python dictionaries are objects: \<^verbatim>\<open>app.defaults\<close> and the values of \<^verbatim>\<open>app.tasks\<close> are
  references, and \<^verbatim>\<open>update\<close> writes to the object it is called on. To say what a query
  leaves untouched, the dictionaries are kept in a store: a cell per reference, and the next
  free reference.
\<close>

record store =
  cells :: "nat \<Rightarrow> task"
  next_free :: nat

text \<open>\<^verbatim>\<open>app.defaults\<close> and \<^verbatim>\<open>app.tasks\<close> as references into the store.\<close>

record refs =
  defaults_ref :: nat
  tasks_refs :: "string \<rightharpoonup> nat"

text \<open>\<^verbatim>\<open>d.copy()\<close>: a new dictionary with the contents of \<open>d\<close>.\<close>

definition dict_copy :: "nat \<Rightarrow> store \<Rightarrow> nat \<times> store" where
  "dict_copy r st =
     (next_free st,
      st\<lparr>cells := (cells st)(next_free st := cells st r), next_free := Suc (next_free st)\<rparr>)"

text \<open>The literal \<^verbatim>\<open>{}\<close>: a new, empty dictionary.\<close>

definition dict_new :: "store \<Rightarrow> nat \<times> store" where
  "dict_new st =
     (next_free st,
      st\<lparr>cells := (cells st)(next_free st := empty_task), next_free := Suc (next_free st)\<rparr>)"

text \<open>\<^verbatim>\<open>target.update(source)\<close>: writes to the dictionary \<open>target\<close> and to no other.\<close>

definition dict_update_at :: "nat \<Rightarrow> nat \<Rightarrow> store \<Rightarrow> store" where
  "dict_update_at target source st =
     st\<lparr>cells := (cells st)(target := dict_update (cells st target) (cells st source))\<rparr>"

text \<open>
  \<^verbatim>\<open>get_row_task\<close> on the store: \<^verbatim>\<open>task = self.app.defaults.copy()\<close>,
  \<^verbatim>\<open>task.update(self.app.tasks.get(row_key, {}))\<close>, \<^verbatim>\<open>return task\<close>. The result is the reference
  returned and the store after the call.
\<close>

definition get_row_task_store :: "refs \<Rightarrow> string \<Rightarrow> store \<Rightarrow> nat \<times> store" where
  "get_row_task_store a row_key st =
     (let (task_ref, st1) = dict_copy (defaults_ref a) st;
          (other, st2) = (case tasks_refs a row_key of None \<Rightarrow> dict_new st1 | Some r \<Rightarrow> (r, st1))
      in (task_ref, dict_update_at task_ref other st2))"

section \<open>Notions used in the statements\<close>

text \<open>
  The value of the variable \<^verbatim>\<open>observation\<close> of \<^verbatim>\<open>peek_worker\<close> after a part of the archive
  has been scanned: the observation emitted last, or the initial one if none was emitted.
\<close>

definition running_observation :: "observation \<Rightarrow> observation list \<Rightarrow> observation" where
  "running_observation obs out = (if out = [] then obs else last out)"

text \<open>
  A queued path has disappeared when the inspection is made: the first library call of
  \<^verbatim>\<open>peek_worker\<close> on it that fails raises \<^verbatim>\<open>FileNotFoundError\<close>.
\<close>

definition disappears :: "world \<Rightarrow> string \<Rightarrow> bool" where
  "disappears w f =
     (case magic_from_file_mime w f of
        Inl e \<Rightarrow> e = FileNotFoundError
      | Inr m \<Rightarrow>
     (case lstat w f of
        Inl e \<Rightarrow> e = FileNotFoundError
      | Inr st \<Rightarrow>
     (case magic_from_file w f of
        Inl e \<Rightarrow> e = FileNotFoundError
      | Inr fm \<Rightarrow> is_av m \<and> MediaInfo_parse w f = Inl FileNotFoundError)))"

text \<open>An event is an external command, for whatever row.\<close>

fun is_command :: "event \<Rightarrow> bool" where
  "is_command (RunProc k p a) = True"
| "is_command (AddRow k l) = False"
| "is_command (UpdateCell k l) = False"
| "is_command (LogProcessing k d) = False"

text \<open>The mark of a transcription command: \<^verbatim>\<open>/bin/bash -c "whisperx ..."\<close>.\<close>

definition is_transcription_command :: "string \<Rightarrow> string list \<Rightarrow> bool" where
  "is_transcription_command program args =
     (program = ''/bin/bash'' \<and>
      (case args of [c, line] \<Rightarrow> c = ''-c'' \<and> startswith ''whisperx '' line | _ \<Rightarrow> False))"

text \<open>
  An entry of the registry before and after the pipeline: the same dictionary, or the same
  with the key \<^verbatim>\<open>extracted_path\<close> set to the joined path of an archive member.
\<close>

definition same_but_extracted_path :: "observation \<Rightarrow> observation \<Rightarrow> bool" where
  "same_but_extracted_path en en' =
     (case archive_path en of
        None \<Rightarrow> en' = en
      | Some ap \<Rightarrow>
          en' = en \<or> en' = en\<lparr>extracted_path := Some (path_join (path en) ap)\<rparr>)"

section \<open>Example inputs\<close>

text \<open>
  A directory \<^verbatim>\<open>/media\<close> with: \<^verbatim>\<open>a.mp3\<close>, an audio file with audio tracks 0 and 2;
  \<^verbatim>\<open>silent.mp4\<close>, a video without an audio track; \<^verbatim>\<open>b.zip\<close> with the readable entry
  \<^verbatim>\<open>clip.wav\<close>; \<^verbatim>\<open>c.zip\<close>, whose first entry cannot be read for a reason other than
  encryption and whose second entry is readable; \<^verbatim>\<open>d.zip\<close>, whose first entry is encrypted and
  whose second entry is readable; and \<^verbatim>\<open>gone.mp3\<close>, which was queued and has disappeared.
\<close>

definition example_stat :: statinfo where
  "example_stat = \<lparr>st_size = 1024, st_ctime = VFloat 3 (-1), st_mtime = VFloat 5 (-1)\<rparr>"

definition wav_entry :: "string \<Rightarrow> block_read \<Rightarrow> archive_entry" where
  "wav_entry name r =
     \<lparr>isreg = True, pathname = name, entry_size = VInt 512, entry_ctime = VNone,
      entry_mtime = VInt 7, get_blocks = r\<rparr>"

definition example_tracks :: "string \<Rightarrow> media_track list" where
  "example_tracks f =
     (if f = ''/media/a.mp3'' then
        [\<lparr>track_type = ''General'', to_data = [(''track_type'', VStr ''General'')]\<rparr>,
         \<lparr>track_type = ''Audio'', to_data = [(''track_id'', VInt 0)]\<rparr>,
         \<lparr>track_type = ''Audio'', to_data = [(''track_id'', VInt 2)]\<rparr>]
      else [\<lparr>track_type = ''Video'', to_data = [(''track_id'', VInt 1)]\<rparr>])"

definition example_archive ::
  "string \<Rightarrow> archive_error + (archive_entry list \<times> archive_error option)"
where
  "example_archive f =
     (if f = ''/media/b.zip'' then Inr ([wav_entry ''clip.wav'' BlocksRead], None)
      else if f = ''/media/c.zip'' then
        Inr ([wav_entry ''one.wav'' (ReadRaises (ArchiveError ''Truncated ZIP file data'' (- 25))),
              wav_entry ''two.wav'' BlocksRead], None)
      else if f = ''/media/d.zip'' then
        Inr ([wav_entry ''secret.wav''
                (ReadRaises (ArchiveError ''Passphrase required for this entry'' (- 25))),
              wav_entry ''open.wav'' BlocksRead], None)
      else Inl (ArchiveError ''Unrecognized archive format'' (- 30)))"

definition example_world :: world where
  "example_world =
     \<lparr>magic_from_file_mime =
        (\<lambda>f. if f = ''/media/gone.mp3'' then Inl FileNotFoundError
             else if f = ''/media/a.mp3'' then Inr ''audio/mpeg''
             else if f = ''/media/silent.mp4'' then Inr ''video/mp4''
             else Inr ''application/zip''),
      lstat = (\<lambda>f. if f = ''/media/gone.mp3'' then Inl FileNotFoundError else Inr example_stat),
      magic_from_file =
        (\<lambda>f. if f = ''/media/gone.mp3'' then Inl FileNotFoundError else Inr ''data''),
      MediaInfo_parse =
        (\<lambda>f. if f = ''/media/gone.mp3'' then Inl FileNotFoundError else Inr (example_tracks f)),
      file_reader = example_archive,
      guess_type = (\<lambda>p. if drop (length p - 4) p = ''.wav'' then Some ''audio/x-wav'' else None)\<rparr>"

text \<open>The observation that \<^verbatim>\<open>peek_worker\<close> starts from for an example file.\<close>

definition example_observation :: "string \<Rightarrow> string \<Rightarrow> observation" where
  "example_observation f m =
     \<lparr>path = f, mime = m, format = ''data'', size_bytes = 1024, ctime = VFloat 3 (-1),
      mtime = VFloat 5 (-1), audio_tracks = None, encrypted = None, archive_path = None,
      archive_size = None, archive_ctime = None, archive_mtime = None, audio_track = None,
      extracted_path = None\<rparr>"

text \<open>
  An environment of the pipeline in which the unpack command exits with \<open>unpack_ret\<close>, the
  transcription command with \<open>whisper_ret\<close>, every other command with 0, and neither
  \<^verbatim>\<open>TemporaryDirectory\<close> nor \<^verbatim>\<open>makedirs\<close> raises.
\<close>

definition example_env :: "int \<Rightarrow> int \<Rightarrow> env" where
  "example_env unpack_ret whisper_ret =
     \<lparr>TemporaryDirectory = (\<lambda>row_key. Inr ''/tmp/tmpq1w2e3''),
      proc_exit =
        (\<lambda>(row_key, program, args).
           if program = ''/usr/bin/bsdtar'' then Inr unpack_ret
           else if is_transcription_command program args then Inr whisper_ret
           else Inr 0),
      makedirs = (\<lambda>row_key output_path. None)\<rparr>"

text \<open>
  Python's \<^verbatim>\<open>int\<close> on the strings of the examples (none is a number), and the overflow of the
  duration (none in the examples).
\<close>

definition example_int_of_str :: "string \<Rightarrow> int option" where
  "example_int_of_str s = None"

definition example_overflows :: "int \<Rightarrow> pyval \<Rightarrow> bool" where
  "example_overflows n v = False"

text \<open>
  Registry entries: the member \<^verbatim>\<open>clip.wav\<close> of \<^verbatim>\<open>/media/b.zip\<close>, the encrypted member
  \<^verbatim>\<open>secret.wav\<close> of \<^verbatim>\<open>/media/d.zip\<close>, and track 0 of \<^verbatim>\<open>/media/a.mp3\<close>.
\<close>

definition clip_entry :: observation where
  "clip_entry =
     (with_archive_fields (wav_entry ''clip.wav'' BlocksRead)
        (example_observation ''/media/b.zip'' ''application/zip''))\<lparr>audio_track := Some []\<rparr>"

definition secret_entry :: observation where
  "secret_entry =
     (with_archive_fields
        (wav_entry ''secret.wav''
           (ReadRaises (ArchiveError ''Passphrase required for this entry'' (- 25))))
        ((example_observation ''/media/d.zip'' ''application/zip'')\<lparr>encrypted := Some True\<rparr>))
       \<lparr>audio_track := Some []\<rparr>"

definition mp3_entry :: observation where
  "mp3_entry =
     (example_observation ''/media/a.mp3'' ''audio/mpeg'')\<lparr>audio_track := Some [(''track_id'', VInt 0)]\<rparr>"

text \<open>
  The application after the given tracks have been discovered, in this order: each entry
  registered under its key, a row per key with the status cell \<^verbatim>\<open>Waiting\<close>, no task stored,
  and the defaults of \<^verbatim>\<open>WSPSRApp\<close>.
\<close>

definition app_of :: "(string \<times> observation) list \<Rightarrow> app" where
  "app_of tracks =
     \<lparr>app_audio_tracks = map_of tracks, app_tasks = Map.empty,
      app_defaults = empty_task\<lparr>models := Some [''large-v2'', ''diarize'']\<rparr>,
      table_rows = map fst tracks,
      events = map (\<lambda>(k, e). AddRow k ''Waiting'') tracks\<rparr>"

text \<open>
  The application with the track of \<^verbatim>\<open>/media/a.mp3\<close> after the user has applied, on its row,
  options in which no model is selected.
\<close>

definition app_no_models :: app where
  "app_no_models =
     fst (check_options (empty_task\<lparr>models := Some []\<rparr>) (Some ''/media/a.mp3/0'')
            ''/media/a.mp3/0'' (app_of [(''/media/a.mp3/0'', mp3_entry)]))"

text \<open>
  An archive \<^verbatim>\<open>/media/e.tar\<close> that holds two members with the same name \<^verbatim>\<open>dup.wav\<close>, of 512
  and of 2048 bytes, in the directory of the other examples.
\<close>

definition duplicate_world :: world where
  "duplicate_world =
     example_world\<lparr>file_reader :=
       (\<lambda>f. if f = ''/media/e.tar'' then
               Inr ([wav_entry ''dup.wav'' BlocksRead,
                     (wav_entry ''dup.wav'' BlocksRead)\<lparr>entry_size := VInt 2048\<rparr>], None)
             else example_archive f)\<rparr>"

text \<open>
  A store with the defaults at reference 0 and the overrides of the row \<^verbatim>\<open>/media/a.mp3/0\<close>
  at reference 1.
\<close>

definition example_store :: store where
  "example_store =
     \<lparr>cells = (\<lambda>r. if r = 0 then empty_task\<lparr>models := Some [''large-v2'', ''diarize'']\<rparr>
                   else if r = 1 then empty_task\<lparr>models := Some [''large-v2''], prompt := Some ''hei''\<rparr>
                   else empty_task),
      next_free = 2\<rparr>"

definition example_refs :: refs where
  "example_refs = \<lparr>defaults_ref = 0, tasks_refs = [''/media/a.mp3/0'' \<mapsto> 1]\<rparr>"

section \<open>Evaluation of the examples\<close>

lemmas ex_simps = example_world_def example_archive_def wav_entry_def is_av_def startswith_def
  entry_mime_def is_encryption_error_def lower_def lower_char_def example_observation_def
  with_archive_fields_def running_observation_def

lemmas pipeline_simps = process_queue_def process_row_def unpacking_def loading_def
  transcribing_def returning_def run_proc_def set_row_status_def update_rows_def update_row_def
  update_cell_def and_then_def copytree_onto_existing_def shown_status_def get_row_status_def
  get_row_task_def dict_update_def whisper_args_def ffmpeg_arg_def quote_def safe_char_def
  basename_def path_join_def strip_trailing_separators.simps Let_def

lemmas app_simps = app_of_def app_no_models_def check_options_def clip_entry_def secret_entry_def
  mp3_entry_def example_env_def is_transcription_command_def empty_task_def

section \<open>The archive scan\<close>

lemma encrypted_with_archive_fields:
  "encrypted (with_archive_fields e obs) = encrypted obs"
  by (simp add: with_archive_fields_def)

lemma scan_entries_encrypted_persists:
  "encrypted obs = Some True \<Longrightarrow> ob \<in> set (fst (scan_entries w obs es)) \<Longrightarrow>
   encrypted ob = Some True"
proof (induction es arbitrary: obs)
  case Nil
  then show ?case by simp
next
  case (Cons e es)
  show ?case
  proof (cases "isreg e \<and> is_av (entry_mime w e)")
    case False
    with Cons show ?thesis by auto
  next
    case True
    show ?thesis
    proof (cases "get_blocks e")
      case BlocksRead
      let ?o = "with_archive_fields e obs"
      have enc: "encrypted ?o = Some True"
        using Cons.prems(1) by (simp add: encrypted_with_archive_fields)
      from Cons.prems(2) True BlocksRead
      have "ob = ?o \<or> ob \<in> set (fst (scan_entries w ?o es))"
        by (simp add: Let_def)
      then show ?thesis using enc Cons.IH[OF enc] by blast
    next
      case (ReadRaises err)
      show ?thesis
      proof (cases "is_encryption_error err")
        case False
        with Cons.prems(2) True ReadRaises show ?thesis by simp
      next
        case enc_err: True
        let ?o = "with_archive_fields e (obs\<lparr>encrypted := Some True\<rparr>)"
        have enc: "encrypted ?o = Some True"
          by (simp add: encrypted_with_archive_fields)
        from Cons.prems(2) True ReadRaises enc_err
        have "ob = ?o \<or> ob \<in> set (fst (scan_entries w ?o es))"
          by (simp add: Let_def)
        then show ?thesis using enc Cons.IH[OF enc] by blast
      qed
    qed
  qed
qed

lemma scan_entries_append:
  "scan_entries w obs pre = (out, None) \<Longrightarrow>
   scan_entries w obs (pre @ es) =
     (out @ fst (scan_entries w (running_observation obs out) es),
      snd (scan_entries w (running_observation obs out) es))"
proof (induction pre arbitrary: obs out)
  case Nil
  then show ?case by (simp add: running_observation_def)
next
  case (Cons e pre)
  show ?case
  proof (cases "isreg e \<and> is_av (entry_mime w e)")
    case False
    with Cons show ?thesis by auto
  next
    case True
    show ?thesis
    proof (cases "get_blocks e")
      case BlocksRead
      let ?o = "with_archive_fields e obs"
      obtain out' where o': "scan_entries w ?o pre = (out', None)" and out: "out = ?o # out'"
        using Cons.prems True BlocksRead
        by (cases "scan_entries w ?o pre") (auto simp: Let_def)
      have run: "running_observation obs (?o # out') = running_observation ?o out'"
        by (simp add: running_observation_def)
      show ?thesis
        using Cons.IH[OF o'] True BlocksRead
        by (simp add: Let_def out run)
    next
      case (ReadRaises err)
      show ?thesis
      proof (cases "is_encryption_error err")
        case False
        with Cons.prems True ReadRaises show ?thesis by simp
      next
        case enc_err: True
        let ?o = "with_archive_fields e (obs\<lparr>encrypted := Some True\<rparr>)"
        obtain out' where o': "scan_entries w ?o pre = (out', None)" and out: "out = ?o # out'"
          using Cons.prems True ReadRaises enc_err
          by (cases "scan_entries w ?o pre") (auto simp: Let_def)
        have run: "running_observation obs (?o # out') = running_observation ?o out'"
          by (simp add: running_observation_def)
        show ?thesis
          using Cons.IH[OF o'] True ReadRaises enc_err
          by (simp add: Let_def out run)
      qed
    qed
  qed
qed

text \<open>
  Claim C9. During one archive scan of the inspection worker, once a matching entry has been
  marked encrypted, the observation emitted for it and every observation emitted afterwards
  for a later entry of the same archive carries \<open>encrypted = True\<close>, whether or not the later
  entry is readable: the scan of the later entries starts from the observation emitted for
  the encrypted entry, and the flag is never cleared.
\<close>

theorem encrypted_flag_persists:
  assumes "scan_entries w obs pre = (out, None)"
    and "isreg e" and "is_av (entry_mime w e)"
    and "get_blocks e = ReadRaises err" and "is_encryption_error err"
    and "ob = with_archive_fields e ((running_observation obs out)\<lparr>encrypted := Some True\<rparr>)"
  shows "fst (scan_entries w obs (pre @ e # post)) = out @ ob # fst (scan_entries w ob post) \<and>
         list_all (\<lambda>x. encrypted x = Some True) (ob # fst (scan_entries w ob post))"
proof -
  have enc: "encrypted ob = Some True"
    using assms(6) by (simp add: encrypted_with_archive_fields)
  have "scan_entries w (running_observation obs out) (e # post) =
          (ob # fst (scan_entries w ob post), snd (scan_entries w ob post))"
    using assms(2-6) by (simp add: Let_def)
  then have "fst (scan_entries w obs (pre @ e # post)) = out @ ob # fst (scan_entries w ob post)"
    using scan_entries_append[OF assms(1), of "e # post"] by simp
  moreover have "list_all (\<lambda>x. encrypted x = Some True) (ob # fst (scan_entries w ob post))"
    using enc scan_entries_encrypted_persists[OF enc] by (auto simp: list_all_iff)
  ultimately show ?thesis by simp
qed

theorem encrypted_flag_persists_witness:
  "fst (scan_entries example_world (example_observation ''/media/d.zip'' ''application/zip'')
          [wav_entry ''secret.wav''
             (ReadRaises (ArchiveError ''Passphrase required for this entry'' (- 25))),
           wav_entry ''open.wav'' BlocksRead])
   = [with_archive_fields
        (wav_entry ''secret.wav''
           (ReadRaises (ArchiveError ''Passphrase required for this entry'' (- 25))))
        ((example_observation ''/media/d.zip'' ''application/zip'')\<lparr>encrypted := Some True\<rparr>),
      with_archive_fields (wav_entry ''open.wav'' BlocksRead)
        ((example_observation ''/media/d.zip'' ''application/zip'')\<lparr>encrypted := Some True\<rparr>)]
   \<and> encrypted (with_archive_fields (wav_entry ''open.wav'' BlocksRead)
        ((example_observation ''/media/d.zip'' ''application/zip'')\<lparr>encrypted := Some True\<rparr>))
       = Some True
   \<and> get_blocks (wav_entry ''open.wav'' BlocksRead) = BlocksRead"
proof -
  let ?w = example_world
  let ?obs = "example_observation ''/media/d.zip'' ''application/zip''"
  let ?err = "ArchiveError ''Passphrase required for this entry'' (- 25)"
  let ?e = "wav_entry ''secret.wav'' (ReadRaises ?err)"
  let ?e2 = "wav_entry ''open.wav'' BlocksRead"
  let ?ob = "with_archive_fields ?e ((running_observation ?obs [])\<lparr>encrypted := Some True\<rparr>)"
  have h1: "scan_entries ?w ?obs [] = ([], None)" by simp
  have h2: "isreg ?e" by (simp add: wav_entry_def)
  have h3: "is_av (entry_mime ?w ?e)" by (simp add: ex_simps)
  have h4: "get_blocks ?e = ReadRaises ?err" by (simp add: wav_entry_def)
  have h5: "is_encryption_error ?err" by (simp add: ex_simps)
  have h6: "?ob = ?ob" by simp
  have rest: "fst (scan_entries ?w ?ob [?e2]) = [with_archive_fields ?e2 ?ob]"
    by (simp add: ex_simps)
  show ?thesis
    using encrypted_flag_persists[OF h1 h2 h3 h4 h5 h6, of "[?e2]"] rest
    by (simp add: ex_simps)
qed

lemma scan_entries_stops:
  assumes "isreg e" and "is_av (entry_mime w e)"
    and "get_blocks e = ReadRaises err" and "\<not> is_encryption_error err"
  shows "scan_entries w obs (e # post) = ([], Some err)"
  using assms by simp

lemma peek_worker_append:
  "peek_worker w pre = (out, None) \<Longrightarrow>
   peek_worker w (pre @ queue) = (out @ fst (peek_worker w queue), snd (peek_worker w queue))"
proof (induction pre arbitrary: out)
  case Nil
  then show ?case by simp
next
  case (Cons f pre)
  obtain o1 r1 where i: "inspect w f = (o1, r1)" by (cases "inspect w f")
  obtain o2 r2 where p: "peek_worker w pre = (o2, r2)" by (cases "peek_worker w pre")
  from Cons.prems i p have r1: "r1 = None" and r2: "r2 = None" and out: "out = o1 @ o2"
    by (auto simp: Let_def split: option.splits)
  from Cons.IH[of o2] p r2 show ?case
    using i r1 out by (simp add: Let_def)
qed

text \<open>
  Claim C3, as the code has it. When the read of the first block of a matching entry fails
  with an error that is not about encryption or a passphrase, the error is raised again and
  ends the scan of this archive: no observation is emitted for that entry or for any later
  entry of the archive. The observations already emitted for earlier entries stay on the
  output queue, and the worker goes on with the next queued path.
\<close>

theorem read_error_ends_archive_scan:
  assumes "magic_from_file_mime w f = Inr m" and "lstat w f = Inr st"
    and "magic_from_file w f = Inr fm" and "\<not> is_av m"
    and "file_reader w f = Inr (pre @ e # post, iteration_error)"
    and "scan_entries w (new_observation f m fm st) pre = (out, None)"
    and "isreg e" and "is_av (entry_mime w e)"
    and "get_blocks e = ReadRaises err" and "\<not> is_encryption_error err"
  shows "peek_worker w (f # queue) = (out @ fst (peek_worker w queue), snd (peek_worker w queue))"
proof -
  have "scan_entries w (new_observation f m fm st) (pre @ e # post) = (out, Some err)"
    using scan_entries_append[OF assms(6), of "e # post"]
      scan_entries_stops[OF assms(7-10)] by simp
  then have "inspect w f = (out, None)"
    using assms(1-5) by (simp add: inspect_def Let_def)
  then show ?thesis by (simp add: Let_def)
qed

theorem read_error_ends_archive_scan_witness:
  "peek_worker example_world [''/media/c.zip'', ''/media/b.zip''] =
     ([] @ fst (peek_worker example_world [''/media/b.zip'']),
      snd (peek_worker example_world [''/media/b.zip'']))
   \<and> length (fst (peek_worker example_world [''/media/b.zip''])) = 1"
proof -
  let ?w = example_world
  let ?f = "''/media/c.zip''"
  let ?err = "ArchiveError ''Truncated ZIP file data'' (- 25)"
  let ?e = "wav_entry ''one.wav'' (ReadRaises ?err)"
  let ?post = "[wav_entry ''two.wav'' BlocksRead]"
  have h1: "magic_from_file_mime ?w ?f = Inr ''application/zip''" by (simp add: ex_simps)
  have h2: "lstat ?w ?f = Inr example_stat" by (simp add: ex_simps)
  have h3: "magic_from_file ?w ?f = Inr ''data''" by (simp add: ex_simps)
  have h4: "\<not> is_av ''application/zip''" by (simp add: ex_simps)
  have h5: "file_reader ?w ?f = Inr ([] @ ?e # ?post, None)" by (simp add: ex_simps)
  have h6: "scan_entries ?w (new_observation ?f ''application/zip'' ''data'' example_stat) [] = ([], None)"
    by simp
  have h7: "isreg ?e" by (simp add: ex_simps)
  have h8: "is_av (entry_mime ?w ?e)" by (simp add: ex_simps)
  have h9: "get_blocks ?e = ReadRaises ?err" by (simp add: ex_simps)
  have h10: "\<not> is_encryption_error ?err" by (simp add: ex_simps)
  have len: "length (fst (peek_worker example_world [''/media/b.zip''])) = 1"
    by (simp add: ex_simps inspect_def new_observation_def Let_def)
  show ?thesis
    using read_error_ends_archive_scan[OF h1 h2 h3 h4 h5 h6 h7 h8 h9 h10, of "[''/media/b.zip'']"] len
    by simp
qed

text \<open>
  Claim C3 as stated fails on \<^verbatim>\<open>/media/c.zip\<close>: the read of \<^verbatim>\<open>one.wav\<close> fails with an error
  that is neither about encryption nor fatal (\<^verbatim>\<open>ARCHIVE_FAILED\<close>), the later entry
  \<^verbatim>\<open>two.wav\<close> matches and is readable, and yet the worker emits no observation for the
  archive.
\<close>

theorem read_error_ends_archive_scan_counterexample:
  "retcode (ArchiveError ''Truncated ZIP file data'' (- 25)) \<noteq> - 30
   \<and> \<not> is_encryption_error (ArchiveError ''Truncated ZIP file data'' (- 25))
   \<and> file_reader example_world ''/media/c.zip'' =
       Inr ([wav_entry ''one.wav'' (ReadRaises (ArchiveError ''Truncated ZIP file data'' (- 25))),
             wav_entry ''two.wav'' BlocksRead], None)
   \<and> is_av (entry_mime example_world (wav_entry ''two.wav'' BlocksRead))
   \<and> peek_worker example_world [''/media/c.zip''] = ([], None)"
  by (simp add: ex_simps inspect_def new_observation_def Let_def)

section \<open>Paths that disappear\<close>

lemma inspect_disappears:
  "disappears w f \<Longrightarrow> inspect w f = ([], Some FileNotFoundError)"
  by (auto simp: disappears_def inspect_def Let_def split: sum.splits)

text \<open>
  Claim C7, as the code has it. For a queued path that has disappeared when it is inspected,
  the inspection fails with \<^verbatim>\<open>FileNotFoundError\<close>; nothing in \<^verbatim>\<open>peek_worker\<close> catches it, so
  the worker ends with that exception: it emits nothing for the path and does not process
  the paths queued after it. What was emitted for earlier paths stays on the output queue.
\<close>

theorem vanished_path_ends_worker:
  assumes "peek_worker w pre = (out, None)" and "disappears w f"
  shows "peek_worker w (pre @ f # queue) = (out, Some FileNotFoundError)"
  using peek_worker_append[OF assms(1), of "f # queue"] inspect_disappears[OF assms(2)]
  by simp

theorem vanished_path_ends_worker_witness:
  "peek_worker example_world ([''/media/b.zip''] @ ''/media/gone.mp3'' # [''/media/a.mp3''])
     = ([with_archive_fields (wav_entry ''clip.wav'' BlocksRead)
           (new_observation ''/media/b.zip'' ''application/zip'' ''data'' example_stat)],
        Some FileNotFoundError)"
proof -
  have h1: "peek_worker example_world [''/media/b.zip'']
     = ([with_archive_fields (wav_entry ''clip.wav'' BlocksRead)
           (new_observation ''/media/b.zip'' ''application/zip'' ''data'' example_stat)], None)"
    by (simp add: ex_simps inspect_def new_observation_def Let_def)
  have h2: "disappears example_world ''/media/gone.mp3''"
    by (simp add: ex_simps disappears_def)
  show ?thesis
    using vanished_path_ends_worker[OF h1 h2, of "[''/media/a.mp3'']"] by simp
qed

text \<open>
  Claim C7 as stated fails when \<^verbatim>\<open>/media/gone.mp3\<close> is queued before \<^verbatim>\<open>/media/a.mp3\<close>: the
  worker ends with \<^verbatim>\<open>FileNotFoundError\<close> and emits nothing, although \<^verbatim>\<open>/media/a.mp3\<close> alone
  gives one observation.
\<close>

theorem vanished_path_ends_worker_counterexample:
  "disappears example_world ''/media/gone.mp3''
   \<and> peek_worker example_world [''/media/gone.mp3'', ''/media/a.mp3''] = ([], Some FileNotFoundError)
   \<and> length (fst (peek_worker example_world [''/media/a.mp3''])) = 1"
  by (simp add: ex_simps disappears_def inspect_def new_observation_def Let_def example_tracks_def)

section \<open>Track keys\<close>






text \<open>A track whose \<^verbatim>\<open>track_id\<close> does not convert ends the discovery of its observation.\<close>

lemma track_id_that_does_not_convert:
  "discovered_tracks example_int_of_str
     ((new_observation ''/media/a.mp3'' ''audio/mpeg'' ''data'' example_stat)
        \<lparr>audio_tracks := Some [[(''track_id'', VStr ''189-128'')]]\<rparr>) = ([], Some ValueError)"
  by (simp add: discovered_tracks_def track_index_def py_int_def example_int_of_str_def)

section \<open>Runs of the task pipeline\<close>

subsection \<open>set_row_status\<close>

text \<open>
  For a row key that is not the empty string, \<^verbatim>\<open>set_row_status\<close> stores the status and
  raises \<^verbatim>\<open>AttributeError\<close>; no cell is written.
\<close>

lemma set_row_status_raises:
  "k \<noteq> [] \<Longrightarrow>
   set_row_status k st s =
     (s\<lparr>app_tasks := (app_tasks s)(k \<mapsto>
          (case app_tasks s k of None \<Rightarrow> empty_task | Some t \<Rightarrow> t)\<lparr>status := Some st\<rparr>)\<rparr>,
      Some AttributeError)"
  by (simp add: set_row_status_def update_rows_def Let_def)

lemma update_each_fields:
  "app_audio_tracks (fst (update_each ks s)) = app_audio_tracks s"
  "app_tasks (fst (update_each ks s)) = app_tasks s"
  "app_defaults (fst (update_each ks s)) = app_defaults s"
  "table_rows (fst (update_each ks s)) = table_rows s"
  by (induction ks arbitrary: s;
      simp add: and_then_def update_row_def update_cell_def split: prod.splits option.splits;
      fastforce split: if_splits)+

lemma update_rows_fields:
  "app_audio_tracks (fst (update_rows keys s)) = app_audio_tracks s"
  "app_tasks (fst (update_rows keys s)) = app_tasks s"
  "app_defaults (fst (update_rows keys s)) = app_defaults s"
  "table_rows (fst (update_rows keys s)) = table_rows s"
  by (simp_all add: update_rows_def update_each_fields del: update_each.simps
      split: row_keys.splits)

lemma set_row_status_fields:
  "app_audio_tracks (fst (set_row_status k st s)) = app_audio_tracks s"
  "app_tasks (fst (set_row_status k st s)) =
     (app_tasks s)(k \<mapsto> (case app_tasks s k of None \<Rightarrow> empty_task | Some t \<Rightarrow> t)\<lparr>status := Some st\<rparr>)"
  "app_defaults (fst (set_row_status k st s)) = app_defaults s"
  "table_rows (fst (set_row_status k st s)) = table_rows s"
  by (simp_all add: set_row_status_def Let_def update_rows_fields)

lemma get_row_status_set_same: "get_row_status (fst (set_row_status k st s)) k = st"
  by (simp add: get_row_status_def get_row_task_def set_row_status_fields dict_update_def)

subsection \<open>The registry during the pipeline\<close>

lemma same_but_extracted_path_refl: "same_but_extracted_path en en"
  by (simp add: same_but_extracted_path_def split: option.splits)

lemma same_but_extracted_path_trans:
  "same_but_extracted_path en en' \<Longrightarrow> same_but_extracted_path en' en'' \<Longrightarrow>
   same_but_extracted_path en en''"
  by (auto simp: same_but_extracted_path_def split: option.splits)

lemma registry_kept_refl: "rel_option same_but_extracted_path x x"
  by (cases x) (simp_all add: same_but_extracted_path_refl)

lemma registry_kept_trans:
  "rel_option same_but_extracted_path x y \<Longrightarrow> rel_option same_but_extracted_path y z \<Longrightarrow>
   rel_option same_but_extracted_path x z"
  by (cases x; cases y; cases z) (auto intro: same_but_extracted_path_trans)

lemma registry_and_then:
  assumes "app_audio_tracks (fst r) = m"
    and "\<And>s'. app_audio_tracks s' = m \<Longrightarrow> app_audio_tracks (fst (f s')) = m"
  shows "app_audio_tracks (fst (and_then r f)) = m"
  using assms by (cases r) (auto simp: and_then_def split: option.splits)

lemma registry_run_proc:
  "app_audio_tracks (snd (run_proc ev k program args s)) = app_audio_tracks s"
  by (simp add: run_proc_def split: sum.splits)

lemma registry_returning:
  "app_audio_tracks (fst (returning ev k track s)) = app_audio_tracks s"
  unfolding returning_def
  by (rule registry_and_then)
     (auto simp: set_row_status_fields Let_def split: option.splits)

lemma registry_transcribing:
  "app_audio_tracks (fst (transcribing ev k track t audio_file s)) = app_audio_tracks s"
  unfolding transcribing_def
  by (rule registry_and_then)
     (auto simp: set_row_status_fields registry_returning run_proc_def split: sum.splits)

lemma registry_loading:
  "app_audio_tracks (fst (loading ev k track t s)) = app_audio_tracks s"
  unfolding loading_def
  by (rule registry_and_then)
     (auto simp: set_row_status_fields registry_transcribing run_proc_def Let_def
      split: sum.splits)

lemma registry_unpacking:
  "app_audio_tracks (fst (unpacking ev k track t s)) = app_audio_tracks s
   \<or> (\<exists>ap. archive_path track = Some ap \<and>
         app_audio_tracks (fst (unpacking ev k track t s))
           = (app_audio_tracks s)(k \<mapsto> track\<lparr>extracted_path := Some (path_join (path track) ap)\<rparr>))"
proof (cases "archive_path track")
  case None
  then show ?thesis by (simp add: unpacking_def registry_loading)
next
  case (Some ap)
  obtain s1 r1 where s1: "set_row_status k UNPACKING s = (s1, r1)"
    by (cases "set_row_status k UNPACKING s")
  have m1: "app_audio_tracks s1 = app_audio_tracks s"
    using set_row_status_fields(1)[of k UNPACKING s] s1 by simp
  show ?thesis
  proof (cases r1)
    case (Some e)
    then show ?thesis using \<open>archive_path track = Some ap\<close> s1 m1
      by (simp add: unpacking_def and_then_def)
  next
    case None
    show ?thesis
      using \<open>archive_path track = Some ap\<close> s1 None m1
      by (auto simp: unpacking_def and_then_def run_proc_def Let_def set_row_status_fields
          registry_loading split: sum.splits)
  qed
qed

text \<open>For a row key that is not empty the pipeline stops before it writes to the registry.\<close>

lemma unpacking_real_key:
  "k \<noteq> [] \<Longrightarrow> app_audio_tracks (fst (unpacking ev k track t s)) = app_audio_tracks s"
  by (cases "archive_path track")
     (simp_all add: unpacking_def registry_loading set_row_status_raises and_then_def)

lemma registry_process_row_cases:
  "app_audio_tracks (fst (process_row ev k s)) = app_audio_tracks s
   \<or> (\<exists>track ap. k = [] \<and> app_audio_tracks s k = Some track \<and> archive_path track = Some ap \<and>
         app_audio_tracks (fst (process_row ev k s))
           = (app_audio_tracks s)(k \<mapsto> track\<lparr>extracted_path := Some (path_join (path track) ap)\<rparr>))"
proof (cases "get_row_status s k \<noteq> WAITING \<or> app_audio_tracks s k = None")
  case True
  then show ?thesis by (auto simp: process_row_def)
next
  case False
  then obtain track where tr: "app_audio_tracks s k = Some track" and w: "get_row_status s k = WAITING"
    by auto
  show ?thesis
  proof (cases "encrypted track = Some True")
    case True
    then show ?thesis using tr w by (simp add: process_row_def set_row_status_fields)
  next
    case ne: False
    show ?thesis
    proof (cases "TemporaryDirectory ev k")
      case (Inl e)
      then show ?thesis using tr w ne by (simp add: process_row_def)
    next
      case (Inr d)
      let ?s1 = "s\<lparr>events := events s @ [LogProcessing k d]\<rparr>"
      have p: "process_row ev k s = unpacking ev k track (get_row_task s k) ?s1"
        using tr w ne Inr by (simp add: process_row_def Let_def)
      show ?thesis
      proof (cases "k = []")
        case True
        then show ?thesis
          using registry_unpacking[of ev k track "get_row_task s k" ?s1] p tr by auto
      next
        case False
        then show ?thesis using unpacking_real_key[of k ev track "get_row_task s k" ?s1] p by simp
      qed
    qed
  qed
qed

lemma registry_process_row:
  "rel_option same_but_extracted_path
     (app_audio_tracks s kq) (app_audio_tracks (fst (process_row ev k s)) kq)"
  "kq \<noteq> [] \<Longrightarrow> app_audio_tracks (fst (process_row ev k s)) kq = app_audio_tracks s kq"
  using registry_process_row_cases[of ev k s]
  by (auto simp: registry_kept_refl same_but_extracted_path_def)

lemma registry_process_rows:
  "rel_option same_but_extracted_path
     (app_audio_tracks s kq) (app_audio_tracks (fst (process_rows ev ks s)) kq)
   \<and> (kq \<noteq> [] \<longrightarrow> app_audio_tracks (fst (process_rows ev ks s)) kq = app_audio_tracks s kq)"
proof (induction ks arbitrary: s)
  case Nil
  then show ?case by (simp add: registry_kept_refl)
next
  case (Cons k ks)
  obtain s1 r1 where p: "process_row ev k s = (s1, r1)" by (cases "process_row ev k s")
  have step: "rel_option same_but_extracted_path (app_audio_tracks s kq) (app_audio_tracks s1 kq)"
    "kq \<noteq> [] \<Longrightarrow> app_audio_tracks s1 kq = app_audio_tracks s kq"
    using registry_process_row[where s=s and kq=kq and ev=ev and k=k] p by simp_all
  show ?case
  proof (cases r1)
    case None
    then show ?thesis using p step Cons.IH[of s1] registry_kept_trans
      by (auto simp: and_then_def)
  next
    case (Some e)
    then show ?thesis using p step by (simp add: and_then_def)
  qed
qed

text \<open>
  Claim C8, as the code has it. The task pipeline adds no entry to the registry and removes
  none, and it leaves every registered entry either unchanged or changed in the field
  \<^verbatim>\<open>extracted_path\<close> only; an entry registered under a key that is not the empty string, as is
  every key that discovery forms, is left entirely unchanged. A status change, a redraw of
  rows and a change of options leave the registry as it is. Discovery does write to the
  registry: \<^verbatim>\<open>on_track_added\<close> stores the new entry under its key before anything else,
  replacing the entry already registered under that key, if any, and leaving the entries
  under all other keys as they are.
\<close>

theorem registry_changes_only_extracted_path:
  "rel_option same_but_extracted_path
     (app_audio_tracks s k) (app_audio_tracks (fst (process_queue ev s)) k)
   \<and> (k \<noteq> [] \<longrightarrow> app_audio_tracks (fst (process_queue ev s)) k = app_audio_tracks s k)
   \<and> app_audio_tracks (fst (set_row_status k' st s)) = app_audio_tracks s
   \<and> app_audio_tracks (fst (update_rows keys s)) = app_audio_tracks s
   \<and> app_audio_tracks (fst (check_options options target k' s)) = app_audio_tracks s
   \<and> app_audio_tracks (fst (on_track_added int_of_str overflows k' entry s))
       = (app_audio_tracks s)(k' \<mapsto> entry)"
  using registry_process_rows[where s=s and kq=k and ev=ev and ks="table_rows s"]
  by (auto simp: process_queue_def set_row_status_fields update_rows_fields check_options_def
      on_track_added_def Let_def split: option.splits)

theorem registry_changes_only_extracted_path_witness:
  "app_audio_tracks
     (fst (process_queue (example_env 0 0) (app_of [(''/media/b.zip/clip.wav/0'', clip_entry)])))
     ''/media/b.zip/clip.wav/0'' = Some clip_entry
   \<and> app_audio_tracks
        (fst (on_track_added example_int_of_str example_overflows ''/media/b.zip/clip.wav/0''
                (clip_entry\<lparr>size_bytes := 2048\<rparr>)
                (app_of [(''/media/b.zip/clip.wav/0'', clip_entry)])))
        ''/media/b.zip/clip.wav/0'' = Some (clip_entry\<lparr>size_bytes := 2048\<rparr>)"
proof -
  let ?k = "''/media/b.zip/clip.wav/0''"
  let ?s = "app_of [(?k, clip_entry)]"
  have before: "app_audio_tracks ?s ?k = Some clip_entry" by (simp add: app_of_def)
  have ne: "?k \<noteq> []" by simp
  show ?thesis
    using registry_changes_only_extracted_path[where s="?s" and k="?k" and ev="example_env 0 0"
        and int_of_str=example_int_of_str and overflows=example_overflows and k'="?k"
        and entry="clip_entry\<lparr>size_bytes := 2048\<rparr>"]
      before ne
    by simp
qed

text \<open>
  Claim C8 as stated fails on \<^verbatim>\<open>/media/e.tar\<close>, an archive with two members of the same name
  \<^verbatim>\<open>dup.wav\<close>: the worker emits one observation for each, both give the key
  \<^verbatim>\<open>/media/e.tar/dup.wav/0\<close>, and the entry registered for the first (\<^verbatim>\<open>archive_size\<close> 512) is
  replaced by that of the second (\<^verbatim>\<open>archive_size\<close> 2048) before the table refuses the second
  row.
\<close>

theorem registry_changes_only_extracted_path_counterexample:
  "map (\<lambda>file_entry. map fst (fst (discovered_tracks example_int_of_str file_entry)))
       (fst (peek_worker duplicate_world [''/media/e.tar'']))
     = [[''/media/e.tar/dup.wav/0''], [''/media/e.tar/dup.wav/0'']]
   \<and> map_option archive_size
        (app_audio_tracks
           (fst (populate_filelist example_int_of_str example_overflows
                   (take 1 (fst (peek_worker duplicate_world [''/media/e.tar''])))
                   (app_of [])))
           ''/media/e.tar/dup.wav/0'')
       = Some (Some (VInt 512))
   \<and> map_option archive_size
        (app_audio_tracks
           (fst (populate_filelist example_int_of_str example_overflows
                   (fst (peek_worker duplicate_world [''/media/e.tar'']))
                   (app_of [])))
           ''/media/e.tar/dup.wav/0'')
       = Some (Some (VInt 2048))
   \<and> snd (populate_filelist example_int_of_str example_overflows
             (fst (peek_worker duplicate_world [''/media/e.tar''])) (app_of []))
       = Some (DuplicateKey ''/media/e.tar/dup.wav/0'')"
  by (simp add: duplicate_world_def ex_simps inspect_def new_observation_def Let_def
      discovered_tracks_def observation_key_def track_index_def str_of_int_def str_of_nat.simps
      on_track_added_def duration_error_def and_then_def app_of_def)

subsection \<open>Rows with a key that is not empty\<close>

text \<open>
  Every key that \<^verbatim>\<open>populate_filelist\<close> forms ends in a slash and an index, so it is not
  empty. For such a row the pipeline stops at its first status change: no external command
  is started.
\<close>

lemma loading_real_key:
  "k \<noteq> [] \<Longrightarrow> events (fst (loading ev k track t s)) = events s \<and>
     snd (loading ev k track t s) = Some AttributeError"
  by (simp add: loading_def set_row_status_raises and_then_def)

lemma unpacking_real_key_events:
  "k \<noteq> [] \<Longrightarrow> events (fst (unpacking ev k track t s)) = events s \<and>
     snd (unpacking ev k track t s) = Some AttributeError"
  by (cases "archive_path track")
     (simp_all add: unpacking_def loading_real_key set_row_status_raises and_then_def)

lemma process_row_real_key:
  "k \<noteq> [] \<Longrightarrow>
   filter is_command (events (fst (process_row ev k s))) = filter is_command (events s)"
  by (auto simp: process_row_def Let_def set_row_status_raises unpacking_real_key_events
      split: option.splits sum.splits)

lemma no_command_for_real_keys:
  "[] \<notin> set ks \<Longrightarrow>
   filter is_command (events (fst (process_rows ev ks s))) = filter is_command (events s)"
proof (induction ks arbitrary: s)
  case Nil
  then show ?case by simp
next
  case (Cons k ks)
  obtain s1 r1 where p: "process_row ev k s = (s1, r1)" by (cases "process_row ev k s")
  have k: "k \<noteq> []" and ks: "[] \<notin> set ks" using Cons.prems by auto
  have step: "filter is_command (events s1) = filter is_command (events s)"
    using process_row_real_key[OF k, of ev s] p by simp
  show ?case
    using p step Cons.IH[OF ks, of s1] by (cases r1) (simp_all add: and_then_def)
qed

text \<open>The last stage never reaches \<open>COMPLETED\<close>: it always ends with an exception.\<close>

lemma returning_never_completes:
  "snd (returning ev k track s) \<noteq> None"
  "get_row_status (fst (returning ev k track s)) k = RETURNING"
proof -
  obtain s1 r1 where s1: "set_row_status k RETURNING s = (s1, r1)"
    by (cases "set_row_status k RETURNING s")
  have st: "get_row_status s1 k = RETURNING"
    using get_row_status_set_same[of k RETURNING s] s1 by simp
  show "snd (returning ev k track s) \<noteq> None"
    using s1 by (cases r1)
      (simp_all add: returning_def and_then_def copytree_onto_existing_def Let_def
        split: option.splits)
  show "get_row_status (fst (returning ev k track s)) k = RETURNING"
    using s1 st by (cases r1)
      (simp_all add: returning_def and_then_def copytree_onto_existing_def Let_def
        split: option.splits)
qed

subsection \<open>Runs of the pipeline on the examples\<close>


text \<open>
  Claim C2 on the code. The track \<^verbatim>\<open>/media/a.mp3/0\<close> is registered and the user applies
  options without a model on its row. As the claim says, the status cell then shows
  \<^verbatim>\<open>Skipped\<close> and the stored task has no status. But \<^verbatim>\<open>get_row_status\<close> reports \<open>WAITING\<close>
  for the task, and a run of the pipeline does not skip the row: it creates the scratch
  directory and stores the status \<open>LOADING\<close>, after which the task is reported and shown
  as \<open>LOADING\<close>, and the run ends with \<^verbatim>\<open>AttributeError\<close> before the transcode command.
  The claim says that the task is reported \<open>SKIPPED\<close>, never \<open>WAITING\<close>, that its stored
  status is not changed, and that no stage is run for it.
\<close>

theorem task_without_models_is_not_skipped:
  "snd (check_options (empty_task\<lparr>models := Some []\<rparr>) (Some ''/media/a.mp3/0'')
          ''/media/a.mp3/0'' (app_of [(''/media/a.mp3/0'', mp3_entry)])) = None
   \<and> events app_no_models =
       [AddRow ''/media/a.mp3/0'' ''Waiting'', UpdateCell ''/media/a.mp3/0'' ''Skipped'']
   \<and> shown_status app_no_models ''/media/a.mp3/0'' = SKIPPED
   \<and> app_tasks app_no_models ''/media/a.mp3/0'' = Some (empty_task\<lparr>models := Some []\<rparr>)
   \<and> get_row_status app_no_models ''/media/a.mp3/0'' = WAITING
   \<and> snd (process_queue (example_env 0 0) app_no_models) = Some AttributeError
   \<and> events (fst (process_queue (example_env 0 0) app_no_models))
       = [AddRow ''/media/a.mp3/0'' ''Waiting'', UpdateCell ''/media/a.mp3/0'' ''Skipped'',
          LogProcessing ''/media/a.mp3/0'' ''/tmp/tmpq1w2e3'']
   \<and> app_tasks (fst (process_queue (example_env 0 0) app_no_models)) ''/media/a.mp3/0''
       = Some (empty_task\<lparr>models := Some [], status := Some LOADING\<rparr>)
   \<and> get_row_status (fst (process_queue (example_env 0 0) app_no_models)) ''/media/a.mp3/0''
       = LOADING
   \<and> shown_status (fst (process_queue (example_env 0 0) app_no_models)) ''/media/a.mp3/0''
       = LOADING"
  by (simp add: app_simps pipeline_simps ex_simps)

text \<open>
  Claim C5 on the code. The encrypted track \<^verbatim>\<open>/media/d.zip/secret.wav/0\<close> is \<open>WAITING\<close>, and so
  is the row before it. The run of the pipeline ends with \<^verbatim>\<open>AttributeError\<close> at the first
  status change of that first row, so the encrypted track is never looked at: it has no
  stored status afterwards and is still \<open>WAITING\<close>. When the encrypted track is the first
  row, \<open>FAILED\<close> is stored for it and no command is run, but its status cell is not
  written and the run ends there with \<^verbatim>\<open>AttributeError\<close>. The claim says that starting the
  pipeline takes every such track from \<open>WAITING\<close> to \<open>FAILED\<close>.
\<close>

theorem encrypted_track_behind_waiting_row:
  "encrypted secret_entry = Some True
   \<and> get_row_status
         (app_of [(''/media/b.zip/clip.wav/0'', clip_entry),
                  (''/media/d.zip/secret.wav/0'', secret_entry)])
         ''/media/d.zip/secret.wav/0'' = WAITING
   \<and> snd (process_queue (example_env 0 0)
             (app_of [(''/media/b.zip/clip.wav/0'', clip_entry),
                      (''/media/d.zip/secret.wav/0'', secret_entry)]))
       = Some AttributeError
   \<and> events (fst (process_queue (example_env 0 0)
             (app_of [(''/media/b.zip/clip.wav/0'', clip_entry),
                      (''/media/d.zip/secret.wav/0'', secret_entry)])))
       = [AddRow ''/media/b.zip/clip.wav/0'' ''Waiting'',
          AddRow ''/media/d.zip/secret.wav/0'' ''Waiting'',
          LogProcessing ''/media/b.zip/clip.wav/0'' ''/tmp/tmpq1w2e3'']
   \<and> app_tasks (fst (process_queue (example_env 0 0)
             (app_of [(''/media/b.zip/clip.wav/0'', clip_entry),
                      (''/media/d.zip/secret.wav/0'', secret_entry)])))
         ''/media/d.zip/secret.wav/0'' = None
   \<and> get_row_status (fst (process_queue (example_env 0 0)
             (app_of [(''/media/b.zip/clip.wav/0'', clip_entry),
                      (''/media/d.zip/secret.wav/0'', secret_entry)])))
         ''/media/d.zip/secret.wav/0'' = WAITING
   \<and> snd (process_queue (example_env 0 0)
             (app_of [(''/media/d.zip/secret.wav/0'', secret_entry),
                      (''/media/b.zip/clip.wav/0'', clip_entry)]))
       = Some AttributeError
   \<and> events (fst (process_queue (example_env 0 0)
             (app_of [(''/media/d.zip/secret.wav/0'', secret_entry),
                      (''/media/b.zip/clip.wav/0'', clip_entry)])))
       = [AddRow ''/media/d.zip/secret.wav/0'' ''Waiting'',
          AddRow ''/media/b.zip/clip.wav/0'' ''Waiting'']
   \<and> get_row_status (fst (process_queue (example_env 0 0)
             (app_of [(''/media/d.zip/secret.wav/0'', secret_entry),
                      (''/media/b.zip/clip.wav/0'', clip_entry)])))
         ''/media/d.zip/secret.wav/0'' = FAILED"
  by (simp add: app_simps pipeline_simps ex_simps)


section \<open>The resolved task\<close>

lemma get_row_task_store_result:
  assumes "defaults_ref a < next_free st"
    and "case tasks_refs a row_key of None \<Rightarrow> True | Some r \<Rightarrow> r < next_free st"
    and "get_row_task_store a row_key st = (t1, st1)"
  shows "t1 = next_free st"
    and "next_free st < next_free st1"
    and "cells st1 t1 =
           dict_update (cells st (defaults_ref a))
             (case tasks_refs a row_key of None \<Rightarrow> empty_task | Some r \<Rightarrow> cells st r)"
    and "\<forall>r < next_free st. cells st1 r = cells st r"
  using assms
  by (auto simp: get_row_task_store_def dict_copy_def dict_new_def dict_update_at_def Let_def
      split: option.splits)

text \<open>
  Claim C10. Resolving the task of a track is idempotent and free of side effects. On a
  store where the defaults and the overrides of the row are allocated, a query returns a
  new dictionary that holds the defaults merged with the overrides (the value of the pure
  \<open>get_row_task\<close>); a second query without an option change in between returns a
  dictionary with the same contents and leaves the first result as it was; and no
  dictionary that existed before the queries, the defaults and the stored overrides among
  them, is changed by either query.
\<close>

theorem get_row_task_idempotent:
  assumes "defaults_ref a < next_free st"
    and "case tasks_refs a row_key of None \<Rightarrow> True | Some r \<Rightarrow> r < next_free st"
    and "app_defaults s = cells st (defaults_ref a)"
    and "app_tasks s row_key = map_option (cells st) (tasks_refs a row_key)"
    and "get_row_task_store a row_key st = (t1, st1)"
    and "get_row_task_store a row_key st1 = (t2, st2)"
  shows "cells st1 t1 = get_row_task s row_key
         \<and> cells st2 t2 = cells st1 t1
         \<and> cells st2 t1 = cells st1 t1
         \<and> (\<forall>r < next_free st. cells st1 r = cells st r \<and> cells st2 r = cells st r)"
proof -
  note r1 = get_row_task_store_result[OF assms(1,2,5)]
  have d1: "defaults_ref a < next_free st1" using assms(1) r1(2) by simp
  have k1: "case tasks_refs a row_key of None \<Rightarrow> True | Some r \<Rightarrow> r < next_free st1"
    using assms(2) r1(2) by (auto split: option.splits)
  note r2 = get_row_task_store_result[OF d1 k1 assms(6)]
  have pure: "cells st1 t1 = get_row_task s row_key"
    using r1(3) assms(3,4) by (auto simp: get_row_task_def split: option.splits)
  have same_inputs: "cells st1 (defaults_ref a) = cells st (defaults_ref a)"
    "(case tasks_refs a row_key of None \<Rightarrow> empty_task | Some r \<Rightarrow> cells st1 r) =
     (case tasks_refs a row_key of None \<Rightarrow> empty_task | Some r \<Rightarrow> cells st r)"
    using r1(4) assms(1,2) by (auto split: option.splits)
  have again: "cells st2 t2 = cells st1 t1"
    using r2(3) r1(3) same_inputs by simp
  have kept: "cells st2 t1 = cells st1 t1"
    using r2(4) r1(1,2) by simp
  have old: "\<forall>r < next_free st. cells st1 r = cells st r \<and> cells st2 r = cells st r"
    using r1(4) r2(4) r1(2) by auto
  show ?thesis using pure again kept old by simp
qed

theorem get_row_task_idempotent_witness:
  "cells (snd (get_row_task_store example_refs ''/media/a.mp3/0'' example_store))
         (fst (get_row_task_store example_refs ''/media/a.mp3/0'' example_store))
     = empty_task\<lparr>models := Some [''large-v2''], prompt := Some ''hei''\<rparr>
   \<and> cells (snd (get_row_task_store example_refs ''/media/a.mp3/0''
                   (snd (get_row_task_store example_refs ''/media/a.mp3/0'' example_store))))
           (fst (get_row_task_store example_refs ''/media/a.mp3/0''
                   (snd (get_row_task_store example_refs ''/media/a.mp3/0'' example_store))))
     = empty_task\<lparr>models := Some [''large-v2''], prompt := Some ''hei''\<rparr>
   \<and> cells (snd (get_row_task_store example_refs ''/media/a.mp3/0''
                   (snd (get_row_task_store example_refs ''/media/a.mp3/0'' example_store)))) 0
     = empty_task\<lparr>models := Some [''large-v2'', ''diarize'']\<rparr>
   \<and> cells (snd (get_row_task_store example_refs ''/media/a.mp3/0''
                   (snd (get_row_task_store example_refs ''/media/a.mp3/0'' example_store)))) 1
     = empty_task\<lparr>models := Some [''large-v2''], prompt := Some ''hei''\<rparr>"
proof -
  let ?k = "''/media/a.mp3/0''"
  let ?s = "initial_app\<lparr>app_tasks := [?k \<mapsto> empty_task\<lparr>models := Some [''large-v2''], prompt := Some ''hei''\<rparr>]\<rparr>"
  let ?q1 = "get_row_task_store example_refs ?k example_store"
  let ?q2 = "get_row_task_store example_refs ?k (snd ?q1)"
  have h1: "defaults_ref example_refs < next_free example_store"
    by (simp add: example_refs_def example_store_def)
  have h2: "case tasks_refs example_refs ?k of None \<Rightarrow> True | Some r \<Rightarrow> r < next_free example_store"
    by (simp add: example_refs_def example_store_def)
  have h3: "app_defaults ?s = cells example_store (defaults_ref example_refs)"
    by (simp add: example_refs_def example_store_def initial_app_def)
  have h4: "app_tasks ?s ?k = map_option (cells example_store) (tasks_refs example_refs ?k)"
    by (simp add: example_refs_def example_store_def)
  have h5: "?q1 = (fst ?q1, snd ?q1)" by simp
  have h6: "?q2 = (fst ?q2, snd ?q2)" by simp
  have g: "get_row_task ?s ?k = empty_task\<lparr>models := Some [''large-v2''], prompt := Some ''hei''\<rparr>"
    by (simp add: get_row_task_def dict_update_def empty_task_def initial_app_def)
  have c0: "cells example_store 0 = empty_task\<lparr>models := Some [''large-v2'', ''diarize'']\<rparr>"
    and c1: "cells example_store 1 = empty_task\<lparr>models := Some [''large-v2''], prompt := Some ''hei''\<rparr>"
    and n: "next_free example_store = 2"
    by (simp_all add: example_store_def)
  show ?thesis
    using get_row_task_idempotent[OF h1 h2 h3 h4 h5 h6] g c0 c1 n
    by simp
qed

end
